theory Spec2Isabelle
  imports Complex_Main
begin

section \<open>Python values and exceptions\<close>

text \<open>
  The instrumented operations are arbitrary coroutines.  Only three facts about what
  they return are inspected by the decorators of \<^verbatim>\<open>metrics.py\<close>: whether the
  result \<^verbatim>\<open>is None\<close>, whether it has an attribute \<^verbatim>\<open>status_code\<close>,
  and the value of that attribute.  \<open>PResponse c body\<close> is an object with a
  \<^verbatim>\<open>status_code\<close> attribute (a Starlette response); the other constructors are the
  builtin values the handlers of \<^verbatim>\<open>main.py\<close> return, none of which has such an
  attribute.
\<close>

datatype pyval =
    PNone
  | PBool bool
  | PInt int
  | PStr string
  | PList "pyval list"
  | PDict "(string \<times> pyval) list"
  | PResponse int pyval

fun hasattr_status_code :: "pyval \<Rightarrow> bool" where
  "hasattr_status_code (PResponse c body) = True"
| "hasattr_status_code v = False"

text \<open>
  \<^verbatim>\<open>response.status_code\<close>; the decorators read it only after
  \<^verbatim>\<open>hasattr\<close> said the attribute exists.
\<close>

fun status_code_of :: "pyval \<Rightarrow> int" where
  "status_code_of (PResponse c body) = c"
| "status_code_of v = 0"

text \<open>Python truth value testing (\<^verbatim>\<open>bool(v)\<close>).\<close>

fun truthy :: "pyval \<Rightarrow> bool" where
  "truthy PNone = False"
| "truthy (PBool b) = b"
| "truthy (PInt i) = (i \<noteq> 0)"
| "truthy (PStr s) = (s \<noteq> [])"
| "truthy (PList xs) = (xs \<noteq> [])"
| "truthy (PDict kvs) = (kvs \<noteq> [])"
| "truthy (PResponse c body) = True"

text \<open>
  Raised exceptions.  \<open>CancelledError\<close> (asyncio, a direct subclass of
  \<^verbatim>\<open>BaseException\<close> since Python 3.8), \<open>KeyboardInterrupt\<close> and \<open>SystemExit\<close>
  are not instances of \<^verbatim>\<open>Exception\<close>; everything else is.
\<close>

datatype py_exn =
    ValueError
  | LabelMismatchError
  | HTTPException int
  | OtherException string
  | CancelledError
  | KeyboardInterrupt
  | SystemExit

fun isinstance_Exception :: "py_exn \<Rightarrow> bool" where
  "isinstance_Exception CancelledError = False"
| "isinstance_Exception KeyboardInterrupt = False"
| "isinstance_Exception SystemExit = False"
| "isinstance_Exception e = True"

text \<open>\<^verbatim>\<open>str(n)\<close> for an integer: label values are stored as strings.\<close>

fun str_nat :: "nat \<Rightarrow> string" where
  "str_nat n =
     (if n < 10 then [''0123456789'' ! n]
      else str_nat (n div 10) @ [''0123456789'' ! (n mod 10)])"

declare str_nat.simps [simp del]

definition str :: "int \<Rightarrow> string" where
  "str i = (if i < 0 then CHR ''-'' # str_nat (nat (- i)) else str_nat (nat i))"

section \<open>Metric definitions and metric instances\<close>

text \<open>
  Modelled from the spec: the MetricDefinition of its data model (the constructor
  arguments of \<^verbatim>\<open>Counter\<close>, \<^verbatim>\<open>Gauge\<close> and \<^verbatim>\<open>Histogram\<close> of the
  \<^verbatim>\<open>prometheus_client\<close> package, which is not under src/): name, kind, help text,
  label names and, for a histogram, the ascending bucket boundaries.
\<close>

datatype metric_kind = Counter | Gauge | Histogram

record metric_def =
  name :: string
  kind :: metric_kind
  documentation :: string
  labelnames :: "string list"
  buckets :: "real list"

type_synonym labelvalues = "string list"

text \<open>
  The instances (children) of one metric, one per label-value combination, in the order
  of their creation.
\<close>

type_synonym 'v children = "(labelvalues \<times> 'v) list"

text \<open>
  Modelled from the spec: the registry's \<^verbatim>\<open>getOrCreate\<close> (the
  \<^verbatim>\<open>.labels(...)\<close> call of the \<^verbatim>\<open>prometheus_client\<close> package, which is
  not under src/).  An instance is created on first use with the metric's initial value
  and is found again afterwards.
\<close>

fun labels :: "labelvalues \<Rightarrow> 'v \<Rightarrow> 'v children \<Rightarrow> 'v children" where
  "labels lv init [] = [(lv, init)]"
| "labels lv init ((k, v) # c) =
     (if k = lv then (k, v) # c else (k, v) # labels lv init c)"

text \<open>
  Modelled from the spec: an update touches only the targeted instance, the one
  \<open>labels\<close> returns for \<open>lv\<close>.
\<close>

fun child_map :: "labelvalues \<Rightarrow> ('v \<Rightarrow> 'v) \<Rightarrow> 'v children \<Rightarrow> 'v children" where
  "child_map lv f [] = []"
| "child_map lv f ((k, v) # c) =
     (if k = lv then (k, f v) # c else (k, v) # child_map lv f c)"

text \<open>
  The current value of the instance for \<open>lv\<close>, the one \<open>labels\<close> returns; \<open>init\<close>
  when it was never created.
\<close>

definition child :: "'v \<Rightarrow> 'v children \<Rightarrow> labelvalues \<Rightarrow> 'v" where
  "child init c lv = (case map_of c lv of Some v \<Rightarrow> v | None \<Rightarrow> init)"

text \<open>
  Modelled from the spec: the state of a histogram instance (\<^verbatim>\<open>prometheus_client\<close>
  is not under src/): cumulative bucket counts, the sum of the observed values and their
  number.  Observed values are real numbers here; the rounding of Python's floats is not
  modelled.
\<close>

record histogram_child =
  bucketCounts :: "nat list"
  sum_h :: real
  count_h :: nat

text \<open>
  Modelled from the spec: a new histogram instance (\<^verbatim>\<open>prometheus_client\<close> is not
  under src/): one cumulative counter per bucket boundary, all zero.
\<close>

definition new_histogram :: "real list \<Rightarrow> histogram_child" where
  "new_histogram bs = \<lparr>bucketCounts = replicate (length bs) 0, sum_h = 0, count_h = 0\<rparr>"

text \<open>
  Modelled from the spec: \<^verbatim>\<open>observe(value)\<close> of a histogram instance
  (\<^verbatim>\<open>prometheus_client\<close> is not under src/): it increments \<open>count\<close>, adds
  to \<open>sum\<close>, and increments every bucket whose upper bound is \<open>\<ge> value\<close>.
\<close>

definition observe :: "real list \<Rightarrow> real \<Rightarrow> histogram_child \<Rightarrow> histogram_child" where
  "observe bs v h =
     \<lparr>bucketCounts = map (\<lambda>(b, c). if v \<le> b then c + 1 else c) (zip bs (bucketCounts h)),
      sum_h = sum_h h + v,
      count_h = count_h h + 1\<rparr>"

text \<open>
  Modelled from the spec: the process-wide registry of metric instances
  (\<^verbatim>\<open>prometheus_client\<close> is not under src/): the instances of every counter, gauge
  and histogram, found by the metric's name (names are unique in a registry).  The
  module-level variables of \<^verbatim>\<open>metrics.py\<close> refer to their metric through its
  definition.  \<open>fresh\<close> is the state at process start: no instance exists.
\<close>

record metrics =
  counter_children :: "string \<Rightarrow> real children"
  gauge_children :: "string \<Rightarrow> real children"
  histogram_children :: "string \<Rightarrow> histogram_child children"

definition fresh :: metrics where
  "fresh = \<lparr>counter_children = (\<lambda>n. []), gauge_children = (\<lambda>n. []),
            histogram_children = (\<lambda>n. [])\<rparr>"

text \<open>
  A Python computation over the metric state: it returns a value (\<open>Inr\<close>) or raises
  (\<open>Inl\<close>), and leaves a new state either way.  A coroutine is awaited to completion;
  what other coroutines did to the metrics while it was suspended is part of the state it
  leaves.
\<close>

type_synonym 'a py = "metrics \<Rightarrow> (py_exn + 'a) \<times> metrics"

text \<open>
  Modelled from the spec: \<^verbatim>\<open>m.labels(lv).inc(amount)\<close> of a Counter
  (\<^verbatim>\<open>prometheus_client\<close> is not under src/).  Label values that do not match the
  definition's label names are rejected; the instance starts at 0; a negative amount
  fails.
\<close>

definition Counter_inc :: "metric_def \<Rightarrow> labelvalues \<Rightarrow> real \<Rightarrow> unit py" where
  "Counter_inc m lv amount s =
     (if length lv \<noteq> length (labelnames m) then (Inl LabelMismatchError, s)
      else
        let c = labels lv 0 (counter_children s (name m)) in
        if amount < 0
        then (Inl ValueError, s\<lparr>counter_children := (counter_children s)(name m := c)\<rparr>)
        else (Inr (), s\<lparr>counter_children :=
                (counter_children s)(name m := child_map lv (\<lambda>v. v + amount) c)\<rparr>))"

text \<open>
  Modelled from the spec: \<^verbatim>\<open>m.labels(lv).set(value)\<close> of a Gauge
  (\<^verbatim>\<open>prometheus_client\<close> is not under src/): last write wins.
\<close>

definition Gauge_set :: "metric_def \<Rightarrow> labelvalues \<Rightarrow> real \<Rightarrow> unit py" where
  "Gauge_set m lv x s =
     (if length lv \<noteq> length (labelnames m) then (Inl LabelMismatchError, s)
      else (Inr (), s\<lparr>gauge_children :=
              (gauge_children s)(name m := child_map lv (\<lambda>v. x)
                 (labels lv 0 (gauge_children s (name m))))\<rparr>))"

text \<open>
  Modelled from the spec: \<^verbatim>\<open>m.labels(lv).observe(value)\<close> of a Histogram
  (\<^verbatim>\<open>prometheus_client\<close> is not under src/).
\<close>

definition Histogram_observe :: "metric_def \<Rightarrow> labelvalues \<Rightarrow> real \<Rightarrow> unit py" where
  "Histogram_observe m lv x s =
     (if length lv \<noteq> length (labelnames m) then (Inl LabelMismatchError, s)
      else (Inr (), s\<lparr>histogram_children :=
              (histogram_children s)(name m := child_map lv (observe (buckets m) x)
                 (labels lv (new_histogram (buckets m)) (histogram_children s (name m))))\<rparr>))"

section \<open>Control flow\<close>

text \<open>Sequencing of two statements: the second runs only when the first did not raise.\<close>

definition seq :: "unit py \<Rightarrow> 'a py \<Rightarrow> 'a py" where
  "seq f g s = (case f s of (Inl e, s1) \<Rightarrow> (Inl e, s1) | (Inr u, s1) \<Rightarrow> g s1)"

text \<open>
  The \<^verbatim>\<open>finally\<close> clause: it runs with the outcome of the \<^verbatim>\<open>try\<close> block
  pending (a value being returned or an exception being raised).  When the clause
  completes, the pending outcome continues; when the clause itself raises, its exception
  replaces the pending outcome.
\<close>

definition finally_clause :: "(py_exn + 'a) \<Rightarrow> unit py \<Rightarrow> 'a py" where
  "finally_clause pending fin s =
     (case fin s of (Inl e, s1) \<Rightarrow> (Inl e, s1) | (Inr u, s1) \<Rightarrow> (pending, s1))"

section \<open>The metric catalog shared by both services\<close>

definition http_requests_total :: metric_def where
  "http_requests_total =
     \<lparr>name = ''http_requests_total'', kind = Counter,
      documentation = ''Total HTTP requests'',
      labelnames = [''method'', ''endpoint'', ''status''], buckets = []\<rparr>"

definition http_request_duration_seconds :: metric_def where
  "http_request_duration_seconds =
     \<lparr>name = ''http_request_duration_seconds'', kind = Histogram,
      documentation = ''HTTP request duration in seconds'',
      labelnames = [''method'', ''endpoint''],
      buckets = [0.01, 0.05, 0.1, 0.5, 1.0, 2.0, 5.0, 10.0]\<rparr>"

definition database_query_duration_seconds :: metric_def where
  "database_query_duration_seconds =
     \<lparr>name = ''database_query_duration_seconds'', kind = Histogram,
      documentation = ''Database query duration in seconds'',
      labelnames = [''operation'', ''table''],
      buckets = [0.001, 0.005, 0.01, 0.05, 0.1, 0.5, 1.0]\<rparr>"

definition redis_cache_hits_total :: metric_def where
  "redis_cache_hits_total =
     \<lparr>name = ''redis_cache_hits_total'', kind = Counter,
      documentation = ''Total number of cache hits'',
      labelnames = [''cache_key_type''], buckets = []\<rparr>"

definition redis_cache_misses_total :: metric_def where
  "redis_cache_misses_total =
     \<lparr>name = ''redis_cache_misses_total'', kind = Counter,
      documentation = ''Total number of cache misses'',
      labelnames = [''cache_key_type''], buckets = []\<rparr>"

definition redis_operations_total :: metric_def where
  "redis_operations_total =
     \<lparr>name = ''redis_operations_total'', kind = Counter,
      documentation = ''Total Redis operations'',
      labelnames = [''operation''], buckets = []\<rparr>"

definition redis_operation_duration_seconds :: metric_def where
  "redis_operation_duration_seconds =
     \<lparr>name = ''redis_operation_duration_seconds'', kind = Histogram,
      documentation = ''Redis operation duration in seconds'',
      labelnames = [''operation''],
      buckets = [0.001, 0.005, 0.01, 0.05, 0.1]\<rparr>"

section \<open>The metrics of the product service\<close>

definition product_views_total :: metric_def where
  "product_views_total =
     \<lparr>name = ''product_views_total'', kind = Counter,
      documentation = ''Total number of product views'',
      labelnames = [''product_id'', ''product_name'', ''category''], buckets = []\<rparr>"

definition products_added_to_cart_total :: metric_def where
  "products_added_to_cart_total =
     \<lparr>name = ''products_added_to_cart_total'', kind = Counter,
      documentation = ''Total number of products added to cart'',
      labelnames = [''product_id'', ''product_name''], buckets = []\<rparr>"

definition product_search_queries_total :: metric_def where
  "product_search_queries_total =
     \<lparr>name = ''product_search_queries_total'', kind = Counter,
      documentation = ''Total number of product search queries'',
      labelnames = [''search_type''], buckets = []\<rparr>"

definition product_inventory_level :: metric_def where
  "product_inventory_level =
     \<lparr>name = ''product_inventory_level'', kind = Gauge,
      documentation = ''Current inventory level for products'',
      labelnames = [''product_id'', ''product_name''], buckets = []\<rparr>"

definition product_current_price :: metric_def where
  "product_current_price =
     \<lparr>name = ''product_current_price'', kind = Gauge,
      documentation = ''Current price of products'',
      labelnames = [''product_id'', ''product_name'', ''currency''], buckets = []\<rparr>"

definition database_connections_active :: metric_def where
  "database_connections_active =
     \<lparr>name = ''database_connections_active'', kind = Gauge,
      documentation = ''Number of active database connections'',
      labelnames = [], buckets = []\<rparr>"

definition database_connections_idle :: metric_def where
  "database_connections_idle =
     \<lparr>name = ''database_connections_idle'', kind = Gauge,
      documentation = ''Number of idle database connections'',
      labelnames = [], buckets = []\<rparr>"

definition database_connections_max :: metric_def where
  "database_connections_max =
     \<lparr>name = ''database_connections_max'', kind = Gauge,
      documentation = ''Maximum number of database connections'',
      labelnames = [], buckets = []\<rparr>"

section \<open>Product service: the decorators of metrics.py\<close>

text \<open>
  \<open>func\<close> is the decorated coroutine, \<open>args\<close> its arguments, passed through
  unchanged; \<open>t0\<close> and \<open>t1\<close> are the two readings of \<^verbatim>\<open>time.time()\<close>, before
  the call and in the \<^verbatim>\<open>finally\<close> clause.  The local variable
  \<^verbatim>\<open>status_code\<close> starts at 200, is overwritten after a normal return when the
  response has the attribute, and is set to 500 by the clause \<^verbatim>\<open>except Exception\<close>,
  which runs only for instances of \<^verbatim>\<open>Exception\<close> and re-raises.
\<close>

definition track_endpoint_metrics ::
  "string \<Rightarrow> ('a \<Rightarrow> pyval py) \<Rightarrow> 'a \<Rightarrow> real \<Rightarrow> real \<Rightarrow> pyval py" where
  "track_endpoint_metrics endpoint_name func args t0 t1 s =
     (let start_time = t0;
          status_code = 200;
          (outcome, s1) = func args s;
          status_code =
            (case outcome of
               Inr response \<Rightarrow>
                 if hasattr_status_code response then status_code_of response
                 else status_code
             | Inl e \<Rightarrow> if isinstance_Exception e then 500 else status_code);
          duration = t1 - start_time
      in finally_clause outcome
           (seq (Counter_inc http_requests_total
                   [''GET'', endpoint_name, str status_code] 1)
                (Histogram_observe http_request_duration_seconds
                   [''GET'', endpoint_name] duration))
           s1)"

definition track_database_query ::
  "string \<Rightarrow> string \<Rightarrow> ('a \<Rightarrow> pyval py) \<Rightarrow> 'a \<Rightarrow> real \<Rightarrow> real \<Rightarrow> pyval py" where
  "track_database_query operation table func args t0 t1 s =
     (let start_time = t0;
          (outcome, s1) = func args s;
          duration = t1 - start_time
      in finally_clause outcome
           (Histogram_observe database_query_duration_seconds [operation, table] duration)
           s1)"

text \<open>
  In the cache decorator the hit/miss counters are updated inside the \<^verbatim>\<open>try\<close>
  block, after the call returned; an exception of such an update becomes the pending
  outcome of the \<^verbatim>\<open>finally\<close> clause.
\<close>

definition track_cache_operation ::
  "string \<Rightarrow> string \<Rightarrow> ('a \<Rightarrow> pyval py) \<Rightarrow> 'a \<Rightarrow> real \<Rightarrow> real \<Rightarrow> pyval py" where
  "track_cache_operation operation key_type func args t0 t1 s =
     (let start_time = t0;
          (outcome, s1) = func args s;
          (outcome, s2) =
            (case outcome of
               Inl e \<Rightarrow> (Inl e, s1)
             | Inr result \<Rightarrow>
                 if operation = ''get'' then
                   (if result \<noteq> PNone
                    then seq (Counter_inc redis_cache_hits_total [key_type] 1)
                           (\<lambda>s. (Inr result, s)) s1
                    else seq (Counter_inc redis_cache_misses_total [key_type] 1)
                           (\<lambda>s. (Inr result, s)) s1)
                 else (Inr result, s1));
          duration = t1 - start_time
      in finally_clause outcome
           (seq (Counter_inc redis_operations_total [operation] 1)
                (Histogram_observe redis_operation_duration_seconds [operation] duration))
           s2)"

section \<open>Product service: the helper functions of metrics.py\<close>

text \<open>
  Every helper takes all its parameters explicitly (Python's default values are supplied
  by the caller); \<^verbatim>\<open>quantity\<close> and the connection numbers are integers,
  \<^verbatim>\<open>price\<close> is a number.
\<close>

definition track_product_view :: "string \<Rightarrow> string \<Rightarrow> string \<Rightarrow> unit py" where
  "track_product_view product_id product_name category =
     Counter_inc product_views_total [product_id, product_name, category] 1"

definition track_add_to_cart :: "string \<Rightarrow> string \<Rightarrow> unit py" where
  "track_add_to_cart product_id product_name =
     Counter_inc products_added_to_cart_total [product_id, product_name] 1"

definition track_product_search :: "string \<Rightarrow> unit py" where
  "track_product_search search_type =
     Counter_inc product_search_queries_total [search_type] 1"

definition update_product_inventory :: "string \<Rightarrow> string \<Rightarrow> int \<Rightarrow> unit py" where
  "update_product_inventory product_id product_name quantity =
     Gauge_set product_inventory_level [product_id, product_name] (of_int quantity)"

definition update_product_price :: "string \<Rightarrow> string \<Rightarrow> real \<Rightarrow> string \<Rightarrow> unit py" where
  "update_product_price product_id product_name price currency =
     Gauge_set product_current_price [product_id, product_name, currency] price"

definition update_db_connection_stats :: "int \<Rightarrow> int \<Rightarrow> int \<Rightarrow> unit py" where
  "update_db_connection_stats active idle max_conn =
     seq (Gauge_set database_connections_active [] (of_int active))
       (seq (Gauge_set database_connections_idle [] (of_int idle))
          (Gauge_set database_connections_max [] (of_int max_conn)))"

section \<open>Product service: the request middleware of main.py\<close>

record request =
  request_method :: string
  url_path :: string

text \<open>
  \<^verbatim>\<open>track_requests\<close> has no \<^verbatim>\<open>try\<close>: when \<^verbatim>\<open>call_next\<close> raises,
  nothing is recorded.  It labels both metrics with \<^verbatim>\<open>request.method\<close>.  Reading
  \<^verbatim>\<open>response.status_code\<close> of an object without that attribute raises
  \<^verbatim>\<open>AttributeError\<close>.
\<close>

definition track_requests ::
  "request \<Rightarrow> (request \<Rightarrow> pyval py) \<Rightarrow> real \<Rightarrow> real \<Rightarrow> pyval py" where
  "track_requests request call_next t0 t1 s =
     (let start_time = t0 in
      case call_next request s of
        (Inl e, s1) \<Rightarrow> (Inl e, s1)
      | (Inr response, s1) \<Rightarrow>
          let duration = t1 - start_time in
          if \<not> hasattr_status_code response
          then (Inl (OtherException ''AttributeError''), s1)
          else
            seq (Counter_inc http_requests_total
                   [request_method request, url_path request,
                    str (status_code_of response)] 1)
              (seq (Histogram_observe http_request_duration_seconds
                      [request_method request, url_path request] duration)
                 (\<lambda>s. (Inr response, s)))
              s1)"

section \<open>The metrics of the user service\<close>

definition user_registrations_total :: metric_def where
  "user_registrations_total =
     \<lparr>name = ''user_registrations_total'', kind = Counter,
      documentation = ''Total number of user registrations'',
      labelnames = [''source''], buckets = []\<rparr>"

definition user_login_attempts_total :: metric_def where
  "user_login_attempts_total =
     \<lparr>name = ''user_login_attempts_total'', kind = Counter,
      documentation = ''Total number of login attempts'',
      labelnames = [''status'', ''method''], buckets = []\<rparr>"

definition user_active_sessions :: metric_def where
  "user_active_sessions =
     \<lparr>name = ''user_active_sessions'', kind = Gauge,
      documentation = ''Number of active user sessions'',
      labelnames = [], buckets = []\<rparr>"

definition user_sessions_created_total :: metric_def where
  "user_sessions_created_total =
     \<lparr>name = ''user_sessions_created_total'', kind = Counter,
      documentation = ''Total number of sessions created'',
      labelnames = [], buckets = []\<rparr>"

definition user_password_reset_requests_total :: metric_def where
  "user_password_reset_requests_total =
     \<lparr>name = ''user_password_reset_requests_total'', kind = Counter,
      documentation = ''Total number of password reset requests'',
      labelnames = [''status''], buckets = []\<rparr>"

definition user_profile_updates_total :: metric_def where
  "user_profile_updates_total =
     \<lparr>name = ''user_profile_updates_total'', kind = Counter,
      documentation = ''Total number of profile updates'',
      labelnames = [''field''], buckets = []\<rparr>"

definition user_email_verifications_total :: metric_def where
  "user_email_verifications_total =
     \<lparr>name = ''user_email_verifications_total'', kind = Counter,
      documentation = ''Total number of email verifications'',
      labelnames = [''status''], buckets = []\<rparr>"

definition user_account_actions_total :: metric_def where
  "user_account_actions_total =
     \<lparr>name = ''user_account_actions_total'', kind = Counter,
      documentation = ''Total number of account actions'',
      labelnames = [''action''], buckets = []\<rparr>"

definition jwt_tokens_issued_total :: metric_def where
  "jwt_tokens_issued_total =
     \<lparr>name = ''jwt_tokens_issued_total'', kind = Counter,
      documentation = ''Total number of JWT tokens issued'',
      labelnames = [''token_type''], buckets = []\<rparr>"

definition jwt_tokens_validated_total :: metric_def where
  "jwt_tokens_validated_total =
     \<lparr>name = ''jwt_tokens_validated_total'', kind = Counter,
      documentation = ''Total number of JWT token validations'',
      labelnames = [''status''], buckets = []\<rparr>"

definition jwt_tokens_revoked_total :: metric_def where
  "jwt_tokens_revoked_total =
     \<lparr>name = ''jwt_tokens_revoked_total'', kind = Counter,
      documentation = ''Total number of JWT tokens revoked'',
      labelnames = [''reason''], buckets = []\<rparr>"

definition failed_login_attempts_by_ip :: metric_def where
  "failed_login_attempts_by_ip =
     \<lparr>name = ''failed_login_attempts_by_ip'', kind = Counter,
      documentation = ''Failed login attempts grouped by IP'',
      labelnames = [''ip_address''], buckets = []\<rparr>"

definition suspicious_activities_total :: metric_def where
  "suspicious_activities_total =
     \<lparr>name = ''suspicious_activities_total'', kind = Counter,
      documentation = ''Total number of suspicious activities detected'',
      labelnames = [''activity_type''], buckets = []\<rparr>"

definition rate_limit_exceeded_total :: metric_def where
  "rate_limit_exceeded_total =
     \<lparr>name = ''rate_limit_exceeded_total'', kind = Counter,
      documentation = ''Total number of rate limit violations'',
      labelnames = [''endpoint'', ''user_id''], buckets = []\<rparr>"

section \<open>User service: the decorators of metrics.py\<close>

definition auth_operation_duration_seconds :: metric_def where
  "auth_operation_duration_seconds =
     \<lparr>name = ''auth_operation_duration_seconds'', kind = Histogram,
      documentation = ''Authentication operation duration in seconds'',
      labelnames = [''operation''],
      buckets = [0.01, 0.05, 0.1, 0.5, 1.0]\<rparr>"

text \<open>
  The user service's \<^verbatim>\<open>track_endpoint_metrics\<close> has the same body as the product
  service's, with the method label \<^verbatim>\<open>'POST'\<close>.
\<close>

definition track_endpoint_metrics_user ::
  "string \<Rightarrow> ('a \<Rightarrow> pyval py) \<Rightarrow> 'a \<Rightarrow> real \<Rightarrow> real \<Rightarrow> pyval py" where
  "track_endpoint_metrics_user endpoint_name func args t0 t1 s =
     (let start_time = t0;
          status_code = 200;
          (outcome, s1) = func args s;
          status_code =
            (case outcome of
               Inr response \<Rightarrow>
                 if hasattr_status_code response then status_code_of response
                 else status_code
             | Inl e \<Rightarrow> if isinstance_Exception e then 500 else status_code);
          duration = t1 - start_time
      in finally_clause outcome
           (seq (Counter_inc http_requests_total
                   [''POST'', endpoint_name, str status_code] 1)
                (Histogram_observe http_request_duration_seconds
                   [''POST'', endpoint_name] duration))
           s1)"

definition track_auth_operation ::
  "string \<Rightarrow> ('a \<Rightarrow> pyval py) \<Rightarrow> 'a \<Rightarrow> real \<Rightarrow> real \<Rightarrow> pyval py" where
  "track_auth_operation operation func args t0 t1 s =
     (let start_time = t0;
          (outcome, s1) = func args s;
          duration = t1 - start_time
      in finally_clause outcome
           (Histogram_observe auth_operation_duration_seconds [operation] duration)
           s1)"

section \<open>User service: the helper functions of metrics.py\<close>

definition track_user_registration :: "string \<Rightarrow> unit py" where
  "track_user_registration source = Counter_inc user_registrations_total [source] 1"

definition track_login_attempt :: "bool \<Rightarrow> string \<Rightarrow> unit py" where
  "track_login_attempt success method =
     (let status = (if success then ''success'' else ''failed'')
      in Counter_inc user_login_attempts_total [status, method] 1)"

definition track_failed_login_by_ip :: "string \<Rightarrow> unit py" where
  "track_failed_login_by_ip ip_address =
     Counter_inc failed_login_attempts_by_ip [ip_address] 1"

definition track_session_creation :: "unit py" where
  "track_session_creation = Counter_inc user_sessions_created_total [] 1"

definition update_active_sessions :: "int \<Rightarrow> unit py" where
  "update_active_sessions count = Gauge_set user_active_sessions [] (of_int count)"

definition track_password_reset :: "string \<Rightarrow> unit py" where
  "track_password_reset status = Counter_inc user_password_reset_requests_total [status] 1"

definition track_profile_update :: "string \<Rightarrow> unit py" where
  "track_profile_update field = Counter_inc user_profile_updates_total [field] 1"

definition track_email_verification :: "string \<Rightarrow> unit py" where
  "track_email_verification status = Counter_inc user_email_verifications_total [status] 1"

definition track_account_action :: "string \<Rightarrow> unit py" where
  "track_account_action action = Counter_inc user_account_actions_total [action] 1"

definition track_jwt_issued :: "string \<Rightarrow> unit py" where
  "track_jwt_issued token_type = Counter_inc jwt_tokens_issued_total [token_type] 1"

definition track_jwt_validated :: "string \<Rightarrow> unit py" where
  "track_jwt_validated status = Counter_inc jwt_tokens_validated_total [status] 1"

definition track_jwt_revoked :: "string \<Rightarrow> unit py" where
  "track_jwt_revoked reason = Counter_inc jwt_tokens_revoked_total [reason] 1"

definition track_suspicious_activity :: "string \<Rightarrow> unit py" where
  "track_suspicious_activity activity_type =
     Counter_inc suspicious_activities_total [activity_type] 1"

definition track_rate_limit_exceeded :: "string \<Rightarrow> string \<Rightarrow> unit py" where
  "track_rate_limit_exceeded endpoint user_id =
     Counter_inc rate_limit_exceeded_total [endpoint, user_id] 1"

section \<open>The exposition endpoint\<close>

text \<open>
  The metrics of each module in the order of their registration (the order of the
  module-level assignments).
\<close>

definition product_catalog :: "metric_def list" where
  "product_catalog =
     [product_views_total, products_added_to_cart_total, product_search_queries_total,
      product_inventory_level, product_current_price,
      http_requests_total, http_request_duration_seconds,
      database_query_duration_seconds, database_connections_active,
      database_connections_idle, database_connections_max,
      redis_cache_hits_total, redis_cache_misses_total, redis_operations_total,
      redis_operation_duration_seconds]"

definition user_catalog :: "metric_def list" where
  "user_catalog =
     [user_registrations_total, user_login_attempts_total, user_active_sessions,
      user_sessions_created_total, user_password_reset_requests_total,
      user_profile_updates_total, user_email_verifications_total,
      user_account_actions_total,
      http_requests_total, http_request_duration_seconds,
      jwt_tokens_issued_total, jwt_tokens_validated_total, jwt_tokens_revoked_total,
      auth_operation_duration_seconds,
      database_query_duration_seconds, database_connections_active,
      database_connections_idle,
      redis_cache_hits_total, redis_cache_misses_total, redis_operations_total,
      failed_login_attempts_by_ip, suspicious_activities_total, rate_limit_exceeded_total]"

text \<open>
  Modelled from the spec: the text-exposition renderer (\<^verbatim>\<open>generate_latest\<close> of
  the \<^verbatim>\<open>prometheus_client\<close> package, which is not under src/), from here to
  \<open>generate_latest\<close>.  For each metric definition in registration order it emits the
  HELP and TYPE lines once, then one data line per existing instance with its current
  value; for a histogram, one line per cumulative bucket plus the \<open>_sum\<close> and
  \<open>_count\<close> lines.  \<open>fmt\<close> writes a number as text.
\<close>

fun commas :: "string list \<Rightarrow> string" where
  "commas [] = []"
| "commas [x] = x"
| "commas (x # y # xs) = x @ '','' @ commas (y # xs)"

text \<open>
  Modelled from the spec: the label part of a data line, the label values quoted, in the
  order of the label names.
\<close>

definition label_pairs :: "string list \<Rightarrow> labelvalues \<Rightarrow> string list" where
  "label_pairs ns vs = map (\<lambda>(n, v). n @ ''='' @ [CHR 0x22] @ v @ [CHR 0x22]) (zip ns vs)"

text \<open>Modelled from the spec: a metric without labels has no label part.\<close>

definition braces :: "string list \<Rightarrow> string" where
  "braces ps = (if ps = [] then [] else ''{'' @ commas ps @ ''}'')"

text \<open>Modelled from the spec: one data line, the sample's name, labels and value.\<close>

definition sample_line :: "string \<Rightarrow> string list \<Rightarrow> string \<Rightarrow> string" where
  "sample_line n ps v = n @ braces ps @ '' '' @ v @ [CHR 0x0A]"

text \<open>Modelled from the spec: the kind as the TYPE line writes it.\<close>

definition kind_text :: "metric_kind \<Rightarrow> string" where
  "kind_text k = (case k of Counter \<Rightarrow> ''counter'' | Gauge \<Rightarrow> ''gauge''
                  | Histogram \<Rightarrow> ''histogram'')"

text \<open>
  Modelled from the spec: the lines of one histogram instance, one per cumulative bucket
  (the boundary as the label \<open>le\<close>), then \<open>_sum\<close> and \<open>_count\<close>.
\<close>

definition render_histogram_child ::
  "(real \<Rightarrow> string) \<Rightarrow> metric_def \<Rightarrow> labelvalues \<times> histogram_child \<Rightarrow> string" where
  "render_histogram_child fmt m inst =
     (case inst of (lv, h) \<Rightarrow>
        concat (map (\<lambda>(b, c). sample_line (name m @ ''_bucket'')
                       (label_pairs (labelnames m @ [''le'']) (lv @ [fmt b])) (fmt (real c)))
                  (zip (buckets m) (bucketCounts h)))
        @ sample_line (name m @ ''_sum'') (label_pairs (labelnames m) lv) (fmt (sum_h h))
        @ sample_line (name m @ ''_count'') (label_pairs (labelnames m) lv)
            (fmt (real (count_h h))))"

text \<open>
  Modelled from the spec: the HELP and TYPE lines of one metric, then the lines of its
  existing instances in the order of their creation.
\<close>

definition render_metric :: "(real \<Rightarrow> string) \<Rightarrow> metrics \<Rightarrow> metric_def \<Rightarrow> string" where
  "render_metric fmt s m =
     ''# HELP '' @ name m @ '' '' @ documentation m @ [CHR 0x0A]
     @ ''# TYPE '' @ name m @ '' '' @ kind_text (kind m) @ [CHR 0x0A]
     @ (case kind m of
          Counter \<Rightarrow>
            concat (map (\<lambda>(lv, v). sample_line (name m) (label_pairs (labelnames m) lv) (fmt v))
                      (counter_children s (name m)))
        | Gauge \<Rightarrow>
            concat (map (\<lambda>(lv, v). sample_line (name m) (label_pairs (labelnames m) lv) (fmt v))
                      (gauge_children s (name m)))
        | Histogram \<Rightarrow>
            concat (map (render_histogram_child fmt m) (histogram_children s (name m))))"

text \<open>
  Modelled from the spec: the whole exposition text, a function of the catalog and of
  the current metric state.
\<close>

definition generate_latest :: "(real \<Rightarrow> string) \<Rightarrow> metric_def list \<Rightarrow> metrics \<Rightarrow> string" where
  "generate_latest fmt catalog s = concat (map (render_metric fmt s) catalog)"

text \<open>
  \<^verbatim>\<open>get_metrics\<close> of the product service and of the user service: each returns what
  \<^verbatim>\<open>generate_latest()\<close> returns for the module's registry, and hands the metric
  state on.
\<close>

definition get_metrics :: "(real \<Rightarrow> string) \<Rightarrow> metrics \<Rightarrow> (py_exn + string) \<times> metrics" where
  "get_metrics fmt s = (Inr (generate_latest fmt product_catalog s), s)"

definition get_metrics_user :: "(real \<Rightarrow> string) \<Rightarrow> metrics \<Rightarrow> (py_exn + string) \<times> metrics" where
  "get_metrics_user fmt s = (Inr (generate_latest fmt user_catalog s), s)"

section \<open>Example coroutines\<close>

text \<open>A coroutine that returns \<open>v\<close>, and one that raises \<open>e\<close>, without touching the metrics.\<close>

definition returns :: "pyval \<Rightarrow> 'a \<Rightarrow> pyval py" where
  "returns v args s = (Inr v, s)"

definition raises :: "py_exn \<Rightarrow> 'a \<Rightarrow> pyval py" where
  "raises e args s = (Inl e, s)"

section \<open>Reading the metric state\<close>

text \<open>The value of a counter instance; 0 when the instance was never created.\<close>

definition counter_value :: "metric_def \<Rightarrow> labelvalues \<Rightarrow> metrics \<Rightarrow> real" where
  "counter_value m lv s = child 0 (counter_children s (name m)) lv"

text \<open>The sum of a counter over all its instances whose label values satisfy \<open>P\<close>.\<close>

definition counter_total :: "metric_def \<Rightarrow> (labelvalues \<Rightarrow> bool) \<Rightarrow> metrics \<Rightarrow> real" where
  "counter_total m P s =
     sum_list (map snd (filter (\<lambda>(k, v). P k) (counter_children s (name m))))"

text \<open>A histogram instance, and the number of observations it holds.\<close>

definition histogram_value :: "metric_def \<Rightarrow> labelvalues \<Rightarrow> metrics \<Rightarrow> histogram_child" where
  "histogram_value m lv s =
     child (new_histogram (buckets m)) (histogram_children s (name m)) lv"

definition histogram_count :: "metric_def \<Rightarrow> labelvalues \<Rightarrow> metrics \<Rightarrow> nat" where
  "histogram_count m lv s = count_h (histogram_value m lv s)"

text \<open>
  The link between the two HTTP metrics: for every method and endpoint, the number of
  observations of the duration histogram equals the sum of the request counter over its
  instances with that method and endpoint (and any status).
\<close>

definition http_metrics_linked :: "metrics \<Rightarrow> bool" where
  "http_metrics_linked s =
     (\<forall>m e. real (histogram_count http_request_duration_seconds [m, e] s) =
        counter_total http_requests_total (\<lambda>k. length k = 3 \<and> take 2 k = [m, e]) s)"

text \<open>No counter instance of \<open>s'\<close> is below its value in \<open>s\<close>.\<close>

definition counters_nondecreasing :: "metrics \<Rightarrow> metrics \<Rightarrow> bool" where
  "counters_nondecreasing s s' =
     (\<forall>n k. child 0 (counter_children s n) k \<le> child 0 (counter_children s' n) k)"

text \<open>
  The status the endpoint decorators hold in their local variable
  \<^verbatim>\<open>status_code\<close> when the \<^verbatim>\<open>finally\<close> clause runs.
\<close>

definition recorded_status :: "py_exn + pyval \<Rightarrow> int" where
  "recorded_status outcome =
     (case outcome of
        Inr response \<Rightarrow>
          if hasattr_status_code response then status_code_of response else 200
      | Inl e \<Rightarrow> if isinstance_Exception e then 500 else 200)"

text \<open>The state the cache decorator's \<^verbatim>\<open>try\<close> block leaves after the call.\<close>

definition cache_classified :: "string \<Rightarrow> string \<Rightarrow> py_exn + pyval \<Rightarrow> metrics \<Rightarrow> metrics" where
  "cache_classified operation key_type outcome s1 =
     (case outcome of
        Inl e \<Rightarrow> s1
      | Inr result \<Rightarrow>
          if operation = ''get'' then
            (if result \<noteq> PNone
             then snd (Counter_inc redis_cache_hits_total [key_type] 1 s1)
             else snd (Counter_inc redis_cache_misses_total [key_type] 1 s1))
          else s1)"

section \<open>Effects of the metric updates\<close>

lemma map_of_labels:
  "map_of (labels lv init c) k =
     (if k = lv then Some (case map_of c lv of Some v \<Rightarrow> v | None \<Rightarrow> init) else map_of c k)"
  by (induction c) (auto split: option.splits)

lemma map_of_child_map:
  "map_of (child_map lv f c) k = (if k = lv then map_option f (map_of c lv) else map_of c k)"
  by (induction c) auto

lemma child_updated:
  "child init (child_map lv f (labels lv init c)) k =
     (if k = lv then f (child init c lv) else child init c k)"
  by (simp add: child_def map_of_child_map map_of_labels split: option.splits)

lemma labels_mem: "lv \<in> fst ` set (labels lv init c)"
  by (induction c) force+

lemma total_labels:
  "sum_list (map snd (filter (\<lambda>(k, v). P k) (labels lv (0::real) c))) =
   sum_list (map snd (filter (\<lambda>(k, v). P k) c))"
  by (induction c) auto

lemma total_child_map:
  "lv \<in> fst ` set c \<Longrightarrow>
   sum_list (map snd (filter (\<lambda>(k, v). P k) (child_map lv (\<lambda>v. v + a) c))) =
   sum_list (map snd (filter (\<lambda>(k, v). P k) c)) + (if P lv then a else (0::real))"
  by (induction c) force+

lemma total_incremented:
  "sum_list (map snd (filter (\<lambda>(k, v). P k)
      (child_map lv (\<lambda>v. v + a) (labels lv (0::real) c)))) =
   sum_list (map snd (filter (\<lambda>(k, v). P k) c)) + (if P lv then a else 0)"
  by (simp only: total_child_map [OF labels_mem] total_labels)

lemma Counter_inc_one:
  "length lv = length (labelnames m) \<Longrightarrow>
   Counter_inc m lv 1 s =
     (Inr (), s\<lparr>counter_children := (counter_children s)
        (name m := child_map lv (\<lambda>v. v + 1) (labels lv 0 (counter_children s (name m))))\<rparr>)"
  by (simp add: Counter_inc_def)

lemma Histogram_observe_ok:
  "length lv = length (labelnames m) \<Longrightarrow>
   Histogram_observe m lv x s =
     (Inr (), s\<lparr>histogram_children := (histogram_children s)
        (name m := child_map lv (observe (buckets m) x)
           (labels lv (new_histogram (buckets m)) (histogram_children s (name m))))\<rparr>)"
  by (simp add: Histogram_observe_def)

lemma Gauge_set_ok:
  "length lv = length (labelnames m) \<Longrightarrow>
   Gauge_set m lv x s =
     (Inr (), s\<lparr>gauge_children := (gauge_children s)
        (name m := child_map lv (\<lambda>v. x) (labels lv 0 (gauge_children s (name m))))\<rparr>)"
  by (simp add: Gauge_set_def)

lemma counter_value_inc:
  "length lv = length (labelnames m) \<Longrightarrow>
   counter_value m' k (snd (Counter_inc m lv 1 s)) =
     counter_value m' k s + (if name m' = name m \<and> k = lv then 1 else 0)"
  by (simp add: Counter_inc_one counter_value_def child_updated)

lemma counter_total_inc:
  "length lv = length (labelnames m) \<Longrightarrow>
   counter_total m' P (snd (Counter_inc m lv 1 s)) =
     counter_total m' P s + (if name m' = name m \<and> P lv then 1 else 0)"
  by (simp add: Counter_inc_one counter_total_def total_incremented)

lemma histogram_value_inc:
  "histogram_value m' k (snd (Counter_inc m lv a s)) = histogram_value m' k s"
  by (simp add: Counter_inc_def histogram_value_def Let_def)

lemma counter_value_observe:
  "counter_value m' k (snd (Histogram_observe m lv x s)) = counter_value m' k s"
  by (simp add: Histogram_observe_def counter_value_def)

lemma counter_total_observe:
  "counter_total m' P (snd (Histogram_observe m lv x s)) = counter_total m' P s"
  by (simp add: Histogram_observe_def counter_total_def)

lemma histogram_value_observe:
  "length lv = length (labelnames m) \<Longrightarrow>
   histogram_value m k (snd (Histogram_observe m lv x s)) =
     (if k = lv then observe (buckets m) x (histogram_value m k s)
      else histogram_value m k s)"
  by (simp add: Histogram_observe_ok histogram_value_def child_updated)

lemma histogram_value_observe_other:
  "name m' \<noteq> name m \<Longrightarrow>
   histogram_value m' k (snd (Histogram_observe m lv x s)) = histogram_value m' k s"
  by (simp add: Histogram_observe_def histogram_value_def)

lemma histogram_count_observe:
  "length lv = length (labelnames m) \<Longrightarrow>
   histogram_count m k (snd (Histogram_observe m lv x s)) =
     histogram_count m k s + (if k = lv then 1 else 0)"
  by (simp add: histogram_count_def histogram_value_observe observe_def)

lemma histogram_count_inc:
  "histogram_count m' k (snd (Counter_inc m lv a s)) = histogram_count m' k s"
  by (simp add: histogram_count_def histogram_value_inc)

lemma labelnames_length:
  "length (labelnames http_requests_total) = 3"
  "length (labelnames http_request_duration_seconds) = 2"
  "length (labelnames database_query_duration_seconds) = 2"
  "length (labelnames redis_cache_hits_total) = 1"
  "length (labelnames redis_cache_misses_total) = 1"
  "length (labelnames redis_operations_total) = 1"
  "length (labelnames redis_operation_duration_seconds) = 1"
  "length (labelnames auth_operation_duration_seconds) = 1"
  by (simp_all add: http_requests_total_def http_request_duration_seconds_def
        database_query_duration_seconds_def redis_cache_hits_total_def
        redis_cache_misses_total_def redis_operations_total_def
        redis_operation_duration_seconds_def auth_operation_duration_seconds_def)

lemma cache_counter_names:
  "name redis_operations_total \<noteq> name redis_cache_hits_total"
  "name redis_operations_total \<noteq> name redis_cache_misses_total"
  "name redis_cache_hits_total \<noteq> name redis_cache_misses_total"
  "name redis_cache_misses_total \<noteq> name redis_cache_hits_total"
  "name redis_cache_hits_total \<noteq> name redis_operations_total"
  "name redis_cache_misses_total \<noteq> name redis_operations_total"
  by (simp_all add: redis_cache_hits_total_def redis_cache_misses_total_def
        redis_operations_total_def)

lemma http_names:
  "name http_requests_total \<noteq> name redis_cache_hits_total"
  "name http_requests_total \<noteq> name redis_cache_misses_total"
  "name http_requests_total \<noteq> name redis_operations_total"
  "name http_request_duration_seconds \<noteq> name redis_operation_duration_seconds"
  "name http_request_duration_seconds \<noteq> name database_query_duration_seconds"
  "name http_request_duration_seconds \<noteq> name auth_operation_duration_seconds"
  by (simp_all add: http_requests_total_def http_request_duration_seconds_def
        redis_cache_hits_total_def redis_cache_misses_total_def redis_operations_total_def
        redis_operation_duration_seconds_def database_query_duration_seconds_def
        auth_operation_duration_seconds_def)

lemma histogram_count_observe_other:
  "name m' \<noteq> name m \<Longrightarrow>
   histogram_count m' k (snd (Histogram_observe m lv x s)) = histogram_count m' k s"
  by (simp add: histogram_count_def histogram_value_observe_other)

lemma str_200: "str 200 = ''200''"
  by (simp add: str_def str_nat.simps)

lemma str_500: "str 500 = ''500''"
  by (simp add: str_def str_nat.simps)

lemma str_201: "str 201 = ''201''"
  by (simp add: str_def str_nat.simps)

lemma counter_value_fresh: "counter_value m k fresh = 0"
  by (simp add: counter_value_def fresh_def child_def)

lemma counter_total_fresh: "counter_total m P fresh = 0"
  by (simp add: counter_total_def fresh_def)

lemma histogram_value_fresh: "histogram_value m k fresh = new_histogram (buckets m)"
  by (simp add: histogram_value_def fresh_def child_def)

lemma histogram_count_fresh: "histogram_count m k fresh = 0"
  by (simp add: histogram_count_def histogram_value_fresh new_histogram_def)

lemma returns_run: "returns v args s = (Inr v, s)"
  by (simp add: returns_def)

lemma raises_run: "raises e args s = (Inl e, s)"
  by (simp add: raises_def)

section \<open>What one wrapped call does\<close>

text \<open>
  Each decorator, run on a coroutine whose call leaves the outcome \<open>outcome\<close> and the
  state \<open>s1\<close>, hands that outcome on and leaves \<open>s1\<close> with its metric updates
  applied.
\<close>

lemma track_endpoint_metrics_run:
  "func args s = (outcome, s1) \<Longrightarrow>
   track_endpoint_metrics endpoint_name func args t0 t1 s =
     (outcome,
      snd (Histogram_observe http_request_duration_seconds [''GET'', endpoint_name] (t1 - t0)
        (snd (Counter_inc http_requests_total
           [''GET'', endpoint_name, str (recorded_status outcome)] 1 s1))))"
  by (simp add: track_endpoint_metrics_def recorded_status_def Let_def finally_clause_def
        seq_def Counter_inc_one Histogram_observe_ok
        http_requests_total_def http_request_duration_seconds_def split: sum.splits)

lemma track_endpoint_metrics_user_run:
  "func args s = (outcome, s1) \<Longrightarrow>
   track_endpoint_metrics_user endpoint_name func args t0 t1 s =
     (outcome,
      snd (Histogram_observe http_request_duration_seconds [''POST'', endpoint_name] (t1 - t0)
        (snd (Counter_inc http_requests_total
           [''POST'', endpoint_name, str (recorded_status outcome)] 1 s1))))"
  by (simp add: track_endpoint_metrics_user_def recorded_status_def Let_def finally_clause_def
        seq_def Counter_inc_one Histogram_observe_ok
        http_requests_total_def http_request_duration_seconds_def split: sum.splits)

lemma track_database_query_run:
  "func args s = (outcome, s1) \<Longrightarrow>
   track_database_query operation table func args t0 t1 s =
     (outcome,
      snd (Histogram_observe database_query_duration_seconds [operation, table] (t1 - t0) s1))"
  by (simp add: track_database_query_def Let_def finally_clause_def
        Histogram_observe_ok database_query_duration_seconds_def)

lemma track_auth_operation_run:
  "func args s = (outcome, s1) \<Longrightarrow>
   track_auth_operation operation func args t0 t1 s =
     (outcome,
      snd (Histogram_observe auth_operation_duration_seconds [operation] (t1 - t0) s1))"
  by (simp add: track_auth_operation_def Let_def finally_clause_def
        Histogram_observe_ok auth_operation_duration_seconds_def)

lemma track_cache_operation_run:
  "func args s = (outcome, s1) \<Longrightarrow>
   track_cache_operation operation key_type func args t0 t1 s =
     (outcome,
      snd (Histogram_observe redis_operation_duration_seconds [operation] (t1 - t0)
        (snd (Counter_inc redis_operations_total [operation] 1
           (cache_classified operation key_type outcome s1)))))"
  by (simp add: track_cache_operation_def cache_classified_def Let_def finally_clause_def
        seq_def Counter_inc_one Histogram_observe_ok
        redis_cache_hits_total_def redis_cache_misses_total_def redis_operations_total_def
        redis_operation_duration_seconds_def split: sum.splits)

lemma track_requests_run:
  "call_next request s = (outcome, s1) \<Longrightarrow>
   track_requests request call_next t0 t1 s =
     (case outcome of
        Inl e \<Rightarrow> (Inl e, s1)
      | Inr response \<Rightarrow>
          if hasattr_status_code response
          then (Inr response,
                snd (Histogram_observe http_request_duration_seconds
                       [request_method request, url_path request] (t1 - t0)
                  (snd (Counter_inc http_requests_total
                     [request_method request, url_path request,
                      str (status_code_of response)] 1 s1))))
          else (Inl (OtherException ''AttributeError''), s1))"
  by (simp add: track_requests_def Let_def seq_def Counter_inc_one Histogram_observe_ok
        labelnames_length split: sum.splits)

section \<open>Transparency of the wrappers\<close>

text \<open>
  Claim C1.  Every wrapper (the HTTP endpoint, database query and cache operation
  decorators of the product service, the HTTP endpoint and authentication decorators of
  the user service) hands on the outcome of the wrapped coroutine unchanged, for every
  coroutine, argument, clock reading and metric state: the value it returned when it
  completed normally (\<open>Inr\<close>), the exception it raised when it failed (\<open>Inl\<close>).
\<close>

theorem wrappers_transparent:
  "fst (track_endpoint_metrics endpoint_name func args t0 t1 s) = fst (func args s) \<and>
   fst (track_database_query operation table func args t0 t1 s) = fst (func args s) \<and>
   fst (track_cache_operation operation key_type func args t0 t1 s) = fst (func args s) \<and>
   fst (track_endpoint_metrics_user endpoint_name func args t0 t1 s) = fst (func args s) \<and>
   fst (track_auth_operation operation func args t0 t1 s) = fst (func args s)"
proof -
  obtain outcome s1 where run: "func args s = (outcome, s1)"
    by (cases "func args s")
  show ?thesis
    by (simp add: run
          track_endpoint_metrics_run [where func = func and args = args, OF run]
          track_database_query_run [where func = func and args = args, OF run]
          track_cache_operation_run [where func = func and args = args, OF run]
          track_endpoint_metrics_user_run [where func = func and args = args, OF run]
          track_auth_operation_run [where func = func and args = args, OF run])
qed

lemma histogram_value_cache_classified:
  "histogram_value m k (cache_classified operation key_type outcome s1) = histogram_value m k s1"
  by (simp add: cache_classified_def histogram_value_inc split: sum.splits)

lemma counter_value_cache_classified_ops:
  "counter_value redis_operations_total k (cache_classified operation key_type outcome s1) =
   counter_value redis_operations_total k s1"
  by (simp add: cache_classified_def counter_value_inc labelnames_length cache_counter_names
        split: sum.splits)

section \<open>The updates of the finally clause happen exactly once\<close>

text \<open>
  Claim C3.  Let \<open>s1\<close> be the metric state the wrapped coroutine leaves and \<open>s'\<close> the
  state the wrapper leaves.  Whatever the coroutine did (returned or raised), the wrapper
  hands its outcome to the caller together with \<open>s'\<close>, so the updates are in place when
  a failure reaches the caller, and \<open>s'\<close> differs from \<open>s1\<close> by exactly one duration
  observation, in the histogram instance of the operation and in no other instance, and,
  for the HTTP decorators, by exactly one increment by 1 of the request counter (over all
  its instances, and over the instances of this method and endpoint); the cache decorator
  adds exactly 1 to the operation counter's instance.
\<close>

theorem metric_updates_exactly_once:
  "(let s1 = snd (func args s);
        s' = snd (track_endpoint_metrics endpoint_name func args t0 t1 s) in
      track_endpoint_metrics endpoint_name func args t0 t1 s = (fst (func args s), s') \<and>
      (\<forall>k. histogram_value http_request_duration_seconds k s' =
         (if k = [''GET'', endpoint_name]
          then observe (buckets http_request_duration_seconds) (t1 - t0)
                 (histogram_value http_request_duration_seconds k s1)
          else histogram_value http_request_duration_seconds k s1)) \<and>
      counter_total http_requests_total (\<lambda>k. True) s' =
        counter_total http_requests_total (\<lambda>k. True) s1 + 1 \<and>
      counter_total http_requests_total (\<lambda>k. take 2 k = [''GET'', endpoint_name]) s' =
        counter_total http_requests_total (\<lambda>k. take 2 k = [''GET'', endpoint_name]) s1 + 1) \<and>
   (let s1 = snd (func args s);
        s' = snd (track_endpoint_metrics_user endpoint_name func args t0 t1 s) in
      track_endpoint_metrics_user endpoint_name func args t0 t1 s = (fst (func args s), s') \<and>
      (\<forall>k. histogram_value http_request_duration_seconds k s' =
         (if k = [''POST'', endpoint_name]
          then observe (buckets http_request_duration_seconds) (t1 - t0)
                 (histogram_value http_request_duration_seconds k s1)
          else histogram_value http_request_duration_seconds k s1)) \<and>
      counter_total http_requests_total (\<lambda>k. True) s' =
        counter_total http_requests_total (\<lambda>k. True) s1 + 1 \<and>
      counter_total http_requests_total (\<lambda>k. take 2 k = [''POST'', endpoint_name]) s' =
        counter_total http_requests_total (\<lambda>k. take 2 k = [''POST'', endpoint_name]) s1 + 1) \<and>
   (let s1 = snd (func args s);
        s' = snd (track_database_query operation table func args t0 t1 s) in
      track_database_query operation table func args t0 t1 s = (fst (func args s), s') \<and>
      (\<forall>k. histogram_value database_query_duration_seconds k s' =
         (if k = [operation, table]
          then observe (buckets database_query_duration_seconds) (t1 - t0)
                 (histogram_value database_query_duration_seconds k s1)
          else histogram_value database_query_duration_seconds k s1))) \<and>
   (let s1 = snd (func args s);
        s' = snd (track_cache_operation operation key_type func args t0 t1 s) in
      track_cache_operation operation key_type func args t0 t1 s = (fst (func args s), s') \<and>
      (\<forall>k. histogram_value redis_operation_duration_seconds k s' =
         (if k = [operation]
          then observe (buckets redis_operation_duration_seconds) (t1 - t0)
                 (histogram_value redis_operation_duration_seconds k s1)
          else histogram_value redis_operation_duration_seconds k s1)) \<and>
      (\<forall>k. counter_value redis_operations_total k s' =
         counter_value redis_operations_total k s1 + (if k = [operation] then 1 else 0))) \<and>
   (let s1 = snd (func args s);
        s' = snd (track_auth_operation operation func args t0 t1 s) in
      track_auth_operation operation func args t0 t1 s = (fst (func args s), s') \<and>
      (\<forall>k. histogram_value auth_operation_duration_seconds k s' =
         (if k = [operation]
          then observe (buckets auth_operation_duration_seconds) (t1 - t0)
                 (histogram_value auth_operation_duration_seconds k s1)
          else histogram_value auth_operation_duration_seconds k s1)))"
proof -
  obtain outcome s1 where run: "func args s = (outcome, s1)"
    by (cases "func args s")
  show ?thesis
    by (simp add: run Let_def
          track_endpoint_metrics_run [where func = func and args = args, OF run]
          track_database_query_run [where func = func and args = args, OF run]
          track_cache_operation_run [where func = func and args = args, OF run]
          track_endpoint_metrics_user_run [where func = func and args = args, OF run]
          track_auth_operation_run [where func = func and args = args, OF run]
          histogram_value_observe histogram_value_inc counter_total_observe counter_total_inc
          counter_value_observe counter_value_inc labelnames_length
          histogram_value_cache_classified counter_value_cache_classified_ops)
qed

section \<open>The method label of the HTTP metrics\<close>

text \<open>
  Claim C2 says that the method label is the HTTP method of the request being handled.
  The decorators do not read the request: the product service's writes
  \<^verbatim>\<open>'GET'\<close> and the user service's \<^verbatim>\<open>'POST'\<close>, whatever the request is.
  \<^verbatim>\<open>main.py\<close> decorates the route \<^verbatim>\<open>POST /products/search\<close> with
  \<^verbatim>\<open>track_endpoint_metrics("search_products")\<close>: such a request is counted and timed
  under \<^verbatim>\<open>GET\<close> and not under \<^verbatim>\<open>POST\<close>, while the middleware
  \<^verbatim>\<open>track_requests\<close> of the same file labels the same request \<^verbatim>\<open>POST\<close>; a
  \<^verbatim>\<open>GET\<close> request through the user service's decorator is labelled
  \<^verbatim>\<open>POST\<close>.
\<close>

theorem endpoint_wrappers_hardcode_method:
  "counter_value http_requests_total [''GET'', ''search_products'', ''200'']
     (snd (track_endpoint_metrics ''search_products'' (returns (PDict []))
        \<lparr>request_method = ''POST'', url_path = ''/products/search''\<rparr> 0 1 fresh)) = 1 \<and>
   counter_value http_requests_total [''POST'', ''search_products'', ''200'']
     (snd (track_endpoint_metrics ''search_products'' (returns (PDict []))
        \<lparr>request_method = ''POST'', url_path = ''/products/search''\<rparr> 0 1 fresh)) = 0 \<and>
   histogram_count http_request_duration_seconds [''GET'', ''search_products'']
     (snd (track_endpoint_metrics ''search_products'' (returns (PDict []))
        \<lparr>request_method = ''POST'', url_path = ''/products/search''\<rparr> 0 1 fresh)) = 1 \<and>
   histogram_count http_request_duration_seconds [''POST'', ''search_products'']
     (snd (track_endpoint_metrics ''search_products'' (returns (PDict []))
        \<lparr>request_method = ''POST'', url_path = ''/products/search''\<rparr> 0 1 fresh)) = 0 \<and>
   counter_value http_requests_total [''POST'', ''/products/search'', ''200'']
     (snd (track_requests \<lparr>request_method = ''POST'', url_path = ''/products/search''\<rparr>
        (returns (PResponse 200 (PDict []))) 0 1 fresh)) = 1 \<and>
   counter_value http_requests_total [''POST'', ''get_profile'', ''200'']
     (snd (track_endpoint_metrics_user ''get_profile'' (returns (PDict []))
        \<lparr>request_method = ''GET'', url_path = ''/profile''\<rparr> 0 1 fresh)) = 1 \<and>
   counter_value http_requests_total [''GET'', ''get_profile'', ''200'']
     (snd (track_endpoint_metrics_user ''get_profile'' (returns (PDict []))
        \<lparr>request_method = ''GET'', url_path = ''/profile''\<rparr> 0 1 fresh)) = 0"
  by (simp add: track_endpoint_metrics_run [where func = "returns (PDict [])", OF returns_run]
        track_endpoint_metrics_user_run [where func = "returns (PDict [])", OF returns_run]
        track_requests_run [where call_next = "returns (PResponse 200 (PDict []))", OF returns_run]
        counter_value_observe counter_value_inc histogram_count_observe histogram_count_inc
        labelnames_length recorded_status_def str_200 counter_value_fresh histogram_count_fresh)

section \<open>The status label of the request counter\<close>

lemma http_counter_after_call:
  "func args s = (outcome, s1) \<Longrightarrow>
   counter_value http_requests_total k
     (snd (track_endpoint_metrics endpoint_name func args t0 t1 s)) =
   counter_value http_requests_total k s1 +
     (if k = [''GET'', endpoint_name, str (recorded_status outcome)] then 1 else 0)"
  by (simp add: track_endpoint_metrics_run counter_value_observe counter_value_inc
        labelnames_length)

lemma http_counter_after_call_user:
  "func args s = (outcome, s1) \<Longrightarrow>
   counter_value http_requests_total k
     (snd (track_endpoint_metrics_user endpoint_name func args t0 t1 s)) =
   counter_value http_requests_total k s1 +
     (if k = [''POST'', endpoint_name, str (recorded_status outcome)] then 1 else 0)"
  by (simp add: track_endpoint_metrics_user_run counter_value_observe counter_value_inc
        labelnames_length)

text \<open>
  Claim C4 as stated fails: it promises status 500 for any exception the wrapped
  operation raises.  A coroutine that is cancelled raises \<open>CancelledError\<close>, which is not
  an instance of \<^verbatim>\<open>Exception\<close>; the clause \<^verbatim>\<open>except Exception\<close> does not run
  and the call is counted under the initial status 200, not under 500.
\<close>

theorem status_500_fails_on_cancellation:
  "counter_value http_requests_total [''GET'', ''get_product'', ''500'']
     (snd (track_endpoint_metrics ''get_product'' (raises CancelledError) () 0 1 fresh)) = 0 \<and>
   counter_value http_requests_total [''GET'', ''get_product'', ''200'']
     (snd (track_endpoint_metrics ''get_product'' (raises CancelledError) () 0 1 fresh)) = 1"
  by (simp add: http_counter_after_call [where func = "raises CancelledError", OF raises_run]
        recorded_status_def str_200 counter_value_fresh)

text \<open>
  Claim C4, amended.  For every HTTP-wrapped call the request counter is incremented in
  exactly the instance whose status label is: the result's status code when the wrapped
  operation completes normally and its result has one; 200 when it completes normally
  without one; 500 when it raises an instance of \<^verbatim>\<open>Exception\<close>; and 200 when it
  raises an exception that is not an instance of \<^verbatim>\<open>Exception\<close>.  Every other
  instance keeps its value.
\<close>

theorem recorded_status_classification:
  "(\<forall>k. counter_value http_requests_total k
          (snd (track_endpoint_metrics endpoint_name func args t0 t1 s)) =
        counter_value http_requests_total k (snd (func args s)) +
        (if k = [''GET'', endpoint_name,
                 str (case fst (func args s) of
                        Inr response \<Rightarrow>
                          if hasattr_status_code response then status_code_of response
                          else 200
                      | Inl e \<Rightarrow> if isinstance_Exception e then 500 else 200)]
         then 1 else 0)) \<and>
   (\<forall>k. counter_value http_requests_total k
          (snd (track_endpoint_metrics_user endpoint_name func args t0 t1 s)) =
        counter_value http_requests_total k (snd (func args s)) +
        (if k = [''POST'', endpoint_name,
                 str (case fst (func args s) of
                        Inr response \<Rightarrow>
                          if hasattr_status_code response then status_code_of response
                          else 200
                      | Inl e \<Rightarrow> if isinstance_Exception e then 500 else 200)]
         then 1 else 0))"
proof -
  obtain outcome s1 where run: "func args s = (outcome, s1)"
    by (cases "func args s")
  show ?thesis
    by (simp add: run recorded_status_def
          http_counter_after_call [where func = func and args = args, OF run]
          http_counter_after_call_user [where func = func and args = args, OF run])
qed

theorem recorded_status_classification_witness:
  "counter_value http_requests_total [''GET'', ''create_product'', ''201'']
     (snd (track_endpoint_metrics ''create_product'' (returns (PResponse 201 PNone)) () 0 1 fresh)) = 1 \<and>
   counter_value http_requests_total [''GET'', ''get_product'', ''200'']
     (snd (track_endpoint_metrics ''get_product'' (returns (PDict [])) () 0 1 fresh)) = 1 \<and>
   counter_value http_requests_total [''GET'', ''get_product'', ''500'']
     (snd (track_endpoint_metrics ''get_product'' (raises (HTTPException 404)) () 0 1 fresh)) = 1 \<and>
   counter_value http_requests_total [''GET'', ''get_product'', ''200'']
     (snd (track_endpoint_metrics ''get_product'' (raises KeyboardInterrupt) () 0 1 fresh)) = 1 \<and>
   counter_value http_requests_total [''POST'', ''login'', ''500'']
     (snd (track_endpoint_metrics_user ''login'' (raises (OtherException ''KeyError'')) () 0 1 fresh)) = 1"
  using recorded_status_classification [where func = "returns (PResponse 201 PNone)"
          and args = "()" and s = fresh and endpoint_name = "''create_product''"
          and ?t0.0 = 0 and ?t1.0 = 1]
        recorded_status_classification [where func = "returns (PDict [])"
          and args = "()" and s = fresh and endpoint_name = "''get_product''"
          and ?t0.0 = 0 and ?t1.0 = 1]
        recorded_status_classification [where func = "raises (HTTPException 404)"
          and args = "()" and s = fresh and endpoint_name = "''get_product''"
          and ?t0.0 = 0 and ?t1.0 = 1]
        recorded_status_classification [where func = "raises KeyboardInterrupt"
          and args = "()" and s = fresh and endpoint_name = "''get_product''"
          and ?t0.0 = 0 and ?t1.0 = 1]
        recorded_status_classification [where func = "raises (OtherException ''KeyError'')"
          and args = "()" and s = fresh and endpoint_name = "''login''"
          and ?t0.0 = 0 and ?t1.0 = 1]
  by (simp add: returns_run raises_run counter_value_fresh str_200 str_500 str_201)

section \<open>Cache hits and misses\<close>

lemma cache_counters_after_call:
  assumes "func args s = (Inr result, s1)"
  shows "counter_value redis_cache_hits_total k
           (snd (track_cache_operation operation key_type func args t0 t1 s)) =
         counter_value redis_cache_hits_total k s1 +
           (if operation = ''get'' \<and> result \<noteq> PNone \<and> k = [key_type] then 1 else 0)"
    and "counter_value redis_cache_misses_total k
           (snd (track_cache_operation operation key_type func args t0 t1 s)) =
         counter_value redis_cache_misses_total k s1 +
           (if operation = ''get'' \<and> result = PNone \<and> k = [key_type] then 1 else 0)"
    and "counter_value redis_operations_total k
           (snd (track_cache_operation operation key_type func args t0 t1 s)) =
         counter_value redis_operations_total k s1 + (if k = [operation] then 1 else 0)"
    and "histogram_value redis_operation_duration_seconds k
           (snd (track_cache_operation operation key_type func args t0 t1 s)) =
         (if k = [operation]
          then observe (buckets redis_operation_duration_seconds) (t1 - t0)
                 (histogram_value redis_operation_duration_seconds k s1)
          else histogram_value redis_operation_duration_seconds k s1)"
  using assms
  by (simp_all add: track_cache_operation_run cache_classified_def counter_value_observe
        counter_value_inc histogram_value_observe histogram_value_inc labelnames_length
        cache_counter_names)

text \<open>
  Claim C5.  For a cache-wrapped call that completes normally with \<open>result\<close>, leaving
  the state \<open>s1\<close>: a \<^verbatim>\<open>get\<close> with a result other than \<^verbatim>\<open>None\<close> adds 1 to
  the hit counter's instance for the key type and nothing to the miss counter; a
  \<^verbatim>\<open>get\<close> returning \<^verbatim>\<open>None\<close> adds 1 to the miss counter's instance and nothing
  to the hit counter; any other operation changes neither; in every case the operation
  counter's instance grows by 1 and the duration histogram's instance receives one
  observation.
\<close>

theorem cache_hit_miss_classification:
  assumes "func args s = (Inr result, s1)"
  shows "(\<forall>k. counter_value redis_cache_hits_total k
               (snd (track_cache_operation operation key_type func args t0 t1 s)) =
             counter_value redis_cache_hits_total k s1 +
               (if operation = ''get'' \<and> result \<noteq> PNone \<and> k = [key_type] then 1 else 0)) \<and>
         (\<forall>k. counter_value redis_cache_misses_total k
               (snd (track_cache_operation operation key_type func args t0 t1 s)) =
             counter_value redis_cache_misses_total k s1 +
               (if operation = ''get'' \<and> result = PNone \<and> k = [key_type] then 1 else 0)) \<and>
         (\<forall>k. counter_value redis_operations_total k
               (snd (track_cache_operation operation key_type func args t0 t1 s)) =
             counter_value redis_operations_total k s1 + (if k = [operation] then 1 else 0)) \<and>
         (\<forall>k. histogram_value redis_operation_duration_seconds k
               (snd (track_cache_operation operation key_type func args t0 t1 s)) =
             (if k = [operation]
              then observe (buckets redis_operation_duration_seconds) (t1 - t0)
                     (histogram_value redis_operation_duration_seconds k s1)
              else histogram_value redis_operation_duration_seconds k s1))"
  using cache_counters_after_call [where func = func and args = args, OF assms]
  by simp

theorem cache_hit_miss_classification_witness:
  "counter_value redis_cache_hits_total [''product'']
     (snd (track_cache_operation ''get'' ''product'' (returns (PStr ''cached'')) () 0 1 fresh)) = 1 \<and>
   counter_value redis_cache_misses_total [''product'']
     (snd (track_cache_operation ''get'' ''product'' (returns (PStr ''cached'')) () 0 1 fresh)) = 0 \<and>
   counter_value redis_cache_hits_total [''product'']
     (snd (track_cache_operation ''get'' ''product'' (returns PNone) () 0 1 fresh)) = 0 \<and>
   counter_value redis_cache_misses_total [''product'']
     (snd (track_cache_operation ''get'' ''product'' (returns PNone) () 0 1 fresh)) = 1 \<and>
   counter_value redis_cache_hits_total [''product'']
     (snd (track_cache_operation ''set'' ''product'' (returns (PBool True)) () 0 1 fresh)) = 0 \<and>
   counter_value redis_cache_misses_total [''product'']
     (snd (track_cache_operation ''set'' ''product'' (returns (PBool True)) () 0 1 fresh)) = 0 \<and>
   counter_value redis_operations_total [''set'']
     (snd (track_cache_operation ''set'' ''product'' (returns (PBool True)) () 0 1 fresh)) = 1 \<and>
   count_h (histogram_value redis_operation_duration_seconds [''set'']
     (snd (track_cache_operation ''set'' ''product'' (returns (PBool True)) () 0 1 fresh))) = 1"
  using cache_hit_miss_classification [where func = "returns (PStr ''cached'')" and args = "()"
          and s = fresh and operation = "''get''" and key_type = "''product''"
          and ?t0.0 = 0 and ?t1.0 = 1, OF returns_run]
        cache_hit_miss_classification [where func = "returns PNone" and args = "()"
          and s = fresh and operation = "''get''" and key_type = "''product''"
          and ?t0.0 = 0 and ?t1.0 = 1, OF returns_run]
        cache_hit_miss_classification [where func = "returns (PBool True)" and args = "()"
          and s = fresh and operation = "''set''" and key_type = "''product''"
          and ?t0.0 = 0 and ?t1.0 = 1, OF returns_run]
  by (simp add: counter_value_fresh histogram_value_fresh observe_def new_histogram_def)

text \<open>
  Claim C10.  A cache-wrapped \<^verbatim>\<open>get\<close> that returns a value which is not
  \<^verbatim>\<open>None\<close> but is falsy (an empty string, an empty list, 0) is a hit: the hit
  counter's instance for the key type grows by 1 and no instance of the miss counter
  changes.
\<close>

theorem cache_falsy_value_counts_as_hit:
  assumes "func args s = (Inr result, s1)" and "result \<noteq> PNone" and "\<not> truthy result"
  shows "counter_value redis_cache_hits_total [key_type]
           (snd (track_cache_operation ''get'' key_type func args t0 t1 s)) =
         counter_value redis_cache_hits_total [key_type] s1 + 1 \<and>
         (\<forall>k. counter_value redis_cache_misses_total k
           (snd (track_cache_operation ''get'' key_type func args t0 t1 s)) =
         counter_value redis_cache_misses_total k s1)"
  using assms(2) cache_counters_after_call(1,2) [where func = func and args = args, OF assms(1)]
  by simp

theorem cache_falsy_value_counts_as_hit_witness:
  "counter_value redis_cache_hits_total [''product'']
     (snd (track_cache_operation ''get'' ''product'' (returns (PStr [])) () 0 1 fresh)) = 1 \<and>
   counter_value redis_cache_misses_total [''product'']
     (snd (track_cache_operation ''get'' ''product'' (returns (PStr [])) () 0 1 fresh)) = 0 \<and>
   counter_value redis_cache_hits_total [''product'']
     (snd (track_cache_operation ''get'' ''product'' (returns (PList [])) () 0 1 fresh)) = 1 \<and>
   counter_value redis_cache_misses_total [''product'']
     (snd (track_cache_operation ''get'' ''product'' (returns (PList [])) () 0 1 fresh)) = 0 \<and>
   counter_value redis_cache_hits_total [''product'']
     (snd (track_cache_operation ''get'' ''product'' (returns (PInt 0)) () 0 1 fresh)) = 1 \<and>
   counter_value redis_cache_misses_total [''product'']
     (snd (track_cache_operation ''get'' ''product'' (returns (PInt 0)) () 0 1 fresh)) = 0"
  using cache_falsy_value_counts_as_hit [where func = "returns (PStr [])" and args = "()"
          and s = fresh and key_type = "''product''" and ?t0.0 = 0 and ?t1.0 = 1, OF returns_run]
        cache_falsy_value_counts_as_hit [where func = "returns (PList [])" and args = "()"
          and s = fresh and key_type = "''product''" and ?t0.0 = 0 and ?t1.0 = 1, OF returns_run]
        cache_falsy_value_counts_as_hit [where func = "returns (PInt 0)" and args = "()"
          and s = fresh and key_type = "''product''" and ?t0.0 = 0 and ?t1.0 = 1, OF returns_run]
  by (simp add: counter_value_fresh)

section \<open>The link between the request counter and the duration histogram\<close>

lemma linked_after_http_updates:
  assumes "http_metrics_linked s1"
  shows "http_metrics_linked
           (snd (Histogram_observe http_request_duration_seconds [meth, endpoint] d
             (snd (Counter_inc http_requests_total [meth, endpoint, st] 1 s1))))"
  using assms
  by (simp add: http_metrics_linked_def histogram_count_observe histogram_count_inc
        counter_total_observe counter_total_inc labelnames_length)

lemma linked_after_other_counter:
  assumes "http_metrics_linked s1" and "name http_requests_total \<noteq> name m"
    and "length lv = length (labelnames m)"
  shows "http_metrics_linked (snd (Counter_inc m lv 1 s1))"
  using assms
  by (simp add: http_metrics_linked_def histogram_count_inc counter_total_inc)

lemma linked_after_other_histogram:
  assumes "http_metrics_linked s1" and "name http_request_duration_seconds \<noteq> name m"
  shows "http_metrics_linked (snd (Histogram_observe m lv x s1))"
  using assms
  by (simp add: http_metrics_linked_def histogram_count_observe_other counter_total_observe)

lemma linked_cache_classified:
  assumes "http_metrics_linked s1"
  shows "http_metrics_linked (cache_classified operation key_type outcome s1)"
  using assms
  by (simp add: cache_classified_def linked_after_other_counter http_names labelnames_length
        split: sum.splits)

text \<open>
  Claim C9.  The link holds in the initial state, and every invocation keeps it: when it
  holds in the state the wrapped coroutine leaves, it holds in the state the wrapper
  leaves, whether the coroutine returned or raised.  This is so for the HTTP decorators of
  both services, which update the two metrics together, for the other decorators, which
  touch neither, and for the middleware \<^verbatim>\<open>track_requests\<close> of \<^verbatim>\<open>main.py\<close>, which
  updates both or none.
\<close>

theorem http_metrics_stay_linked:
  "http_metrics_linked fresh \<and>
   (http_metrics_linked (snd (func args s)) \<longrightarrow>
      http_metrics_linked (snd (track_endpoint_metrics endpoint_name func args t0 t1 s)) \<and>
      http_metrics_linked (snd (track_endpoint_metrics_user endpoint_name func args t0 t1 s)) \<and>
      http_metrics_linked (snd (track_database_query operation table func args t0 t1 s)) \<and>
      http_metrics_linked (snd (track_cache_operation operation key_type func args t0 t1 s)) \<and>
      http_metrics_linked (snd (track_auth_operation operation func args t0 t1 s))) \<and>
   (http_metrics_linked (snd (call_next request s)) \<longrightarrow>
      http_metrics_linked (snd (track_requests request call_next t0 t1 s)))"
proof -
  obtain outcome s1 where run: "func args s = (outcome, s1)"
    by (cases "func args s")
  obtain outcome' s1' where run': "call_next request s = (outcome', s1')"
    by (cases "call_next request s")
  have init: "http_metrics_linked fresh"
    by (simp add: http_metrics_linked_def histogram_count_fresh counter_total_fresh)
  have wrappers: "http_metrics_linked s1 \<Longrightarrow>
      http_metrics_linked (snd (track_endpoint_metrics endpoint_name func args t0 t1 s)) \<and>
      http_metrics_linked (snd (track_endpoint_metrics_user endpoint_name func args t0 t1 s)) \<and>
      http_metrics_linked (snd (track_database_query operation table func args t0 t1 s)) \<and>
      http_metrics_linked (snd (track_cache_operation operation key_type func args t0 t1 s)) \<and>
      http_metrics_linked (snd (track_auth_operation operation func args t0 t1 s))"
    by (simp add:
          track_endpoint_metrics_run [where func = func and args = args, OF run]
          track_database_query_run [where func = func and args = args, OF run]
          track_cache_operation_run [where func = func and args = args, OF run]
          track_endpoint_metrics_user_run [where func = func and args = args, OF run]
          track_auth_operation_run [where func = func and args = args, OF run]
          linked_after_http_updates linked_after_other_histogram linked_after_other_counter
          linked_cache_classified http_names labelnames_length)
  have middleware: "http_metrics_linked s1' \<Longrightarrow>
      http_metrics_linked (snd (track_requests request call_next t0 t1 s))"
    by (simp add: track_requests_run [where call_next = call_next, OF run']
          linked_after_http_updates split: sum.splits)
  show ?thesis
    using init wrappers middleware by (simp add: run run')
qed

theorem http_metrics_stay_linked_witness:
  "real (histogram_count http_request_duration_seconds [''GET'', ''get_product'']
     (snd (track_endpoint_metrics ''get_product'' (returns (PDict [])) () 0 1 fresh))) =
   counter_total http_requests_total (\<lambda>k. length k = 3 \<and> take 2 k = [''GET'', ''get_product''])
     (snd (track_endpoint_metrics ''get_product'' (returns (PDict [])) () 0 1 fresh)) \<and>
   real (histogram_count http_request_duration_seconds [''GET'', ''get_product'']
     (snd (track_endpoint_metrics ''get_product'' (raises (HTTPException 404)) () 0 1 fresh))) =
   counter_total http_requests_total (\<lambda>k. length k = 3 \<and> take 2 k = [''GET'', ''get_product''])
     (snd (track_endpoint_metrics ''get_product'' (raises (HTTPException 404)) () 0 1 fresh)) \<and>
   histogram_count http_request_duration_seconds [''GET'', ''get_product'']
     (snd (track_endpoint_metrics ''get_product'' (raises (HTTPException 404)) () 0 1 fresh)) = 1"
proof -
  have linked: "http_metrics_linked
     (snd (track_endpoint_metrics ''get_product'' (returns (PDict [])) () 0 1 fresh))"
    "http_metrics_linked
     (snd (track_endpoint_metrics ''get_product'' (raises (HTTPException 404)) () 0 1 fresh))"
    using http_metrics_stay_linked [where func = "returns (PDict [])" and args = "()"
          and s = fresh and endpoint_name = "''get_product''" and ?t0.0 = 0 and ?t1.0 = 1]
        http_metrics_stay_linked [where func = "raises (HTTPException 404)" and args = "()"
          and s = fresh and endpoint_name = "''get_product''" and ?t0.0 = 0 and ?t1.0 = 1]
    by (simp_all add: returns_run raises_run)
  have once: "histogram_count http_request_duration_seconds [''GET'', ''get_product'']
     (snd (track_endpoint_metrics ''get_product'' (raises (HTTPException 404)) () 0 1 fresh)) = 1"
    by (simp add: track_endpoint_metrics_run [where func = "raises (HTTPException 404)", OF raises_run]
          histogram_count_observe histogram_count_inc labelnames_length histogram_count_fresh)
  show ?thesis
    using linked [unfolded http_metrics_linked_def, rule_format,
            of "''GET''" "''get_product''"]
    by (simp only: once simp_thms)
qed

section \<open>Histogram observations\<close>

text \<open>
  Claim C6.  For every histogram instance with one cumulative counter per bucket boundary
  and every observed value \<open>v\<close>, \<open>observe\<close> increments \<open>count\<close> by 1, adds \<open>v\<close>
  to \<open>sum\<close>, and increments bucket \<open>i\<close> exactly when its upper bound is \<open>\<ge> v\<close>,
  leaving the others unchanged.  Observing 2, 7 and 15 against the boundaries 5, 10, 20
  gives the bucket counts 1, 2, 3, the sum 24 and the count 3.
\<close>

theorem histogram_observe_cumulative:
  assumes "length (bucketCounts h) = length bs" and "i < length bs"
  shows "count_h (observe bs v h) = count_h h + 1 \<and>
         sum_h (observe bs v h) = sum_h h + v \<and>
         length (bucketCounts (observe bs v h)) = length bs \<and>
         bucketCounts (observe bs v h) ! i =
           bucketCounts h ! i + (if v \<le> bs ! i then 1 else 0) \<and>
         fold (observe [5, 10, 20]) [2, 7, 15] (new_histogram [5, 10, 20]) =
           \<lparr>bucketCounts = [1, 2, 3], sum_h = 24, count_h = 3\<rparr>"
  using assms by (simp add: observe_def new_histogram_def)

theorem histogram_observe_cumulative_witness:
  "bucketCounts (observe [5, 10, 20] 7 (new_histogram [5, 10, 20])) ! 0 = 0 \<and>
   bucketCounts (observe [5, 10, 20] 7 (new_histogram [5, 10, 20])) ! 1 = 1 \<and>
   bucketCounts (observe [5, 10, 20] 7 (new_histogram [5, 10, 20])) ! 2 = 1 \<and>
   count_h (observe [5, 10, 20] 7 (new_histogram [5, 10, 20])) = 1 \<and>
   sum_h (observe [5, 10, 20] 7 (new_histogram [5, 10, 20])) = 7"
  using histogram_observe_cumulative [where h = "new_histogram [5, 10, 20]"
          and bs = "[5, 10, 20]" and i = 0 and v = 7]
        histogram_observe_cumulative [where h = "new_histogram [5, 10, 20]"
          and bs = "[5, 10, 20]" and i = 1 and v = 7]
        histogram_observe_cumulative [where h = "new_histogram [5, 10, 20]"
          and bs = "[5, 10, 20]" and i = 2 and v = 7]
  by (simp add: new_histogram_def)

section \<open>Counters never decrease\<close>

lemma nondecreasing_refl: "counters_nondecreasing s s"
  by (simp add: counters_nondecreasing_def)

lemma nondecreasing_trans:
  "counters_nondecreasing s s1 \<Longrightarrow> counters_nondecreasing s1 s2 \<Longrightarrow> counters_nondecreasing s s2"
  unfolding counters_nondecreasing_def by (meson order_trans)

lemma child_labels_same: "child init (labels lv init c) k = child init c k"
  by (simp add: child_def map_of_labels split: option.splits)

lemma nondecreasing_Counter_inc:
  "0 \<le> amount \<Longrightarrow> counters_nondecreasing s (snd (Counter_inc m lv amount s))"
  by (simp add: counters_nondecreasing_def Counter_inc_def Let_def child_updated)

lemma nondecreasing_Gauge_set: "counters_nondecreasing s (snd (Gauge_set m lv x s))"
  by (simp add: counters_nondecreasing_def Gauge_set_def)

lemma nondecreasing_Histogram_observe:
  "counters_nondecreasing s (snd (Histogram_observe m lv x s))"
  by (simp add: counters_nondecreasing_def Histogram_observe_def)

lemma Counter_inc_negative:
  "amount < 0 \<Longrightarrow> length lv = length (labelnames m) \<Longrightarrow>
   fst (Counter_inc m lv amount s) = Inl ValueError \<and>
   counter_value m' k (snd (Counter_inc m lv amount s)) = counter_value m' k s"
  by (simp add: Counter_inc_def Let_def counter_value_def child_labels_same)

lemma counter_recorder:
  "length lv = length (labelnames m) \<Longrightarrow>
   fst (Counter_inc m lv 1 s) = Inr () \<and> counters_nondecreasing s (snd (Counter_inc m lv 1 s))"
  by (simp add: nondecreasing_Counter_inc) (simp add: Counter_inc_one)

lemma gauge_recorder:
  "length lv = length (labelnames m) \<Longrightarrow>
   fst (Gauge_set m lv x s) = Inr () \<and> counters_nondecreasing s (snd (Gauge_set m lv x s))"
  by (simp add: nondecreasing_Gauge_set) (simp add: Gauge_set_ok)

lemma product_recorders:
  "list_all (\<lambda>r. fst (r s) = Inr () \<and> counters_nondecreasing s (snd (r s)))
     [track_product_view product_id product_name category,
      track_add_to_cart product_id product_name,
      track_product_search search_type,
      update_product_inventory product_id product_name quantity,
      update_product_price product_id product_name price currency,
      update_db_connection_stats active idle max_conn]"
proof -
  have "fst (track_product_view product_id product_name category s) = Inr () \<and>
        counters_nondecreasing s (snd (track_product_view product_id product_name category s))"
    unfolding track_product_view_def
    by (rule counter_recorder) (simp add: product_views_total_def)
  moreover have "fst (track_add_to_cart product_id product_name s) = Inr () \<and>
        counters_nondecreasing s (snd (track_add_to_cart product_id product_name s))"
    unfolding track_add_to_cart_def
    by (rule counter_recorder) (simp add: products_added_to_cart_total_def)
  moreover have "fst (track_product_search search_type s) = Inr () \<and>
        counters_nondecreasing s (snd (track_product_search search_type s))"
    unfolding track_product_search_def
    by (rule counter_recorder) (simp add: product_search_queries_total_def)
  moreover have "fst (update_product_inventory product_id product_name quantity s) = Inr () \<and>
        counters_nondecreasing s (snd (update_product_inventory product_id product_name quantity s))"
    unfolding update_product_inventory_def
    by (rule gauge_recorder) (simp add: product_inventory_level_def)
  moreover have "fst (update_product_price product_id product_name price currency s) = Inr () \<and>
        counters_nondecreasing s (snd (update_product_price product_id product_name price currency s))"
    unfolding update_product_price_def
    by (rule gauge_recorder) (simp add: product_current_price_def)
  moreover have "fst (update_db_connection_stats active idle max_conn s) = Inr () \<and>
        counters_nondecreasing s (snd (update_db_connection_stats active idle max_conn s))"
    by (simp add: update_db_connection_stats_def seq_def Gauge_set_def
          database_connections_active_def database_connections_idle_def
          database_connections_max_def counters_nondecreasing_def)
  ultimately show ?thesis by simp
qed

lemma user_recorders:
  "list_all (\<lambda>r. fst (r s) = Inr () \<and> counters_nondecreasing s (snd (r s)))
     [track_user_registration source,
      track_login_attempt success login_method,
      track_failed_login_by_ip ip_address,
      track_session_creation,
      update_active_sessions count,
      track_password_reset status,
      track_profile_update field,
      track_email_verification status,
      track_account_action action,
      track_jwt_issued token_type,
      track_jwt_validated status,
      track_jwt_revoked reason,
      track_suspicious_activity activity_type,
      track_rate_limit_exceeded endpoint user_id]"
proof -
  have c: "\<And>m lv. length lv = length (labelnames m) \<Longrightarrow>
        fst (Counter_inc m lv 1 s) = Inr () \<and>
        counters_nondecreasing s (snd (Counter_inc m lv 1 s))"
    by (rule counter_recorder)
  have g: "\<And>m lv x. length lv = length (labelnames m) \<Longrightarrow>
        fst (Gauge_set m lv x s) = Inr () \<and>
        counters_nondecreasing s (snd (Gauge_set m lv x s))"
    by (rule gauge_recorder)
  show ?thesis
    by (simp add: c g Let_def
          track_user_registration_def user_registrations_total_def
          track_login_attempt_def user_login_attempts_total_def
          track_failed_login_by_ip_def failed_login_attempts_by_ip_def
          track_session_creation_def user_sessions_created_total_def
          update_active_sessions_def user_active_sessions_def
          track_password_reset_def user_password_reset_requests_total_def
          track_profile_update_def user_profile_updates_total_def
          track_email_verification_def user_email_verifications_total_def
          track_account_action_def user_account_actions_total_def
          track_jwt_issued_def jwt_tokens_issued_total_def
          track_jwt_validated_def jwt_tokens_validated_total_def
          track_jwt_revoked_def jwt_tokens_revoked_total_def
          track_suspicious_activity_def suspicious_activities_total_def
          track_rate_limit_exceeded_def rate_limit_exceeded_total_def)
qed

lemma nondecreasing_cache_classified:
  "counters_nondecreasing s1 (cache_classified operation key_type outcome s1)"
  by (simp add: cache_classified_def nondecreasing_Counter_inc nondecreasing_refl
        split: sum.splits)

lemma wrappers_nondecreasing:
  "counters_nondecreasing (snd (func args s))
     (snd (track_endpoint_metrics endpoint_name func args t0 t1 s))"
  "counters_nondecreasing (snd (func args s))
     (snd (track_endpoint_metrics_user endpoint_name func args t0 t1 s))"
  "counters_nondecreasing (snd (func args s))
     (snd (track_database_query operation table func args t0 t1 s))"
  "counters_nondecreasing (snd (func args s))
     (snd (track_cache_operation operation key_type func args t0 t1 s))"
  "counters_nondecreasing (snd (func args s))
     (snd (track_auth_operation operation func args t0 t1 s))"
proof -
  obtain outcome s1 where run: "func args s = (outcome, s1)"
    by (cases "func args s")
  have step: "\<And>m lv x m' lv' u. counters_nondecreasing u
       (snd (Histogram_observe m lv x (snd (Counter_inc m' lv' 1 u))))"
    by (rule nondecreasing_trans [OF nondecreasing_Counter_inc nondecreasing_Histogram_observe])
      simp
  show "counters_nondecreasing (snd (func args s))
     (snd (track_endpoint_metrics endpoint_name func args t0 t1 s))"
    by (simp add: run track_endpoint_metrics_run [where func = func and args = args, OF run] step)
  show "counters_nondecreasing (snd (func args s))
     (snd (track_endpoint_metrics_user endpoint_name func args t0 t1 s))"
    by (simp add: run track_endpoint_metrics_user_run [where func = func and args = args, OF run] step)
  show "counters_nondecreasing (snd (func args s))
     (snd (track_database_query operation table func args t0 t1 s))"
    by (simp add: run track_database_query_run [where func = func and args = args, OF run]
          nondecreasing_Histogram_observe)
  show "counters_nondecreasing (snd (func args s))
     (snd (track_cache_operation operation key_type func args t0 t1 s))"
    by (simp add: run track_cache_operation_run [where func = func and args = args, OF run])
      (rule nondecreasing_trans [OF nondecreasing_cache_classified step])
  show "counters_nondecreasing (snd (func args s))
     (snd (track_auth_operation operation func args t0 t1 s))"
    by (simp add: run track_auth_operation_run [where func = func and args = args, OF run]
          nondecreasing_Histogram_observe)
qed

lemma middleware_nondecreasing:
  "counters_nondecreasing (snd (call_next request s))
     (snd (track_requests request call_next t0 t1 s))"
proof -
  obtain outcome s1 where run: "call_next request s = (outcome, s1)"
    by (cases "call_next request s")
  have step: "\<And>m lv x m' lv' u. counters_nondecreasing u
       (snd (Histogram_observe m lv x (snd (Counter_inc m' lv' 1 u))))"
    by (rule nondecreasing_trans [OF nondecreasing_Counter_inc nondecreasing_Histogram_observe])
      simp
  show ?thesis
    by (simp add: run track_requests_run [where call_next = call_next, OF run]
          step nondecreasing_refl split: sum.splits)
qed

text \<open>
  Claim C7.  A counter instance reads 0 in the initial state and is created with the
  value 0.  An increment by a negative amount fails with \<open>ValueError\<close> and changes no
  counter value; an increment by a non-negative amount lowers no counter instance.  Every
  helper function of the two modules succeeds and lowers no counter instance; the updates
  of every decorator (from the state the wrapped coroutine leaves), of the middleware and
  of the exposition endpoint lower no counter instance.
\<close>

theorem counters_start_at_zero_and_never_decrease:
  "counter_value m k fresh = 0 \<and>
   (map_of c lv = None \<longrightarrow> child 0 (labels lv 0 c) lv = (0::real)) \<and>
   (amount < 0 \<and> length lv = length (labelnames m) \<longrightarrow>
      fst (Counter_inc m lv amount s) = Inl ValueError \<and>
      (\<forall>m' k. counter_value m' k (snd (Counter_inc m lv amount s)) = counter_value m' k s)) \<and>
   (0 \<le> amount \<longrightarrow> counters_nondecreasing s (snd (Counter_inc m lv amount s))) \<and>
   list_all (\<lambda>r. fst (r s) = Inr () \<and> counters_nondecreasing s (snd (r s)))
     [track_product_view product_id product_name category,
      track_add_to_cart product_id product_name,
      track_product_search search_type,
      update_product_inventory product_id product_name quantity,
      update_product_price product_id product_name price currency,
      update_db_connection_stats active idle max_conn] \<and>
   list_all (\<lambda>r. fst (r s) = Inr () \<and> counters_nondecreasing s (snd (r s)))
     [track_user_registration source,
      track_login_attempt success login_method,
      track_failed_login_by_ip ip_address,
      track_session_creation,
      update_active_sessions count,
      track_password_reset status,
      track_profile_update field,
      track_email_verification status,
      track_account_action action,
      track_jwt_issued token_type,
      track_jwt_validated status,
      track_jwt_revoked reason,
      track_suspicious_activity activity_type,
      track_rate_limit_exceeded endpoint user_id] \<and>
   counters_nondecreasing (snd (func args s))
     (snd (track_endpoint_metrics endpoint_name func args t0 t1 s)) \<and>
   counters_nondecreasing (snd (func args s))
     (snd (track_endpoint_metrics_user endpoint_name func args t0 t1 s)) \<and>
   counters_nondecreasing (snd (func args s))
     (snd (track_database_query operation table func args t0 t1 s)) \<and>
   counters_nondecreasing (snd (func args s))
     (snd (track_cache_operation operation key_type func args t0 t1 s)) \<and>
   counters_nondecreasing (snd (func args s))
     (snd (track_auth_operation operation func args t0 t1 s)) \<and>
   counters_nondecreasing (snd (call_next request s))
     (snd (track_requests request call_next t0 t1 s)) \<and>
   counters_nondecreasing s (snd (get_metrics fmt s)) \<and>
   counters_nondecreasing s (snd (get_metrics_user fmt s))"
proof -
  have start: "map_of c lv = None \<longrightarrow> child 0 (labels lv 0 c) lv = (0::real)"
    by (simp add: child_def map_of_labels)
  have neg: "amount < 0 \<and> length lv = length (labelnames m) \<longrightarrow>
      fst (Counter_inc m lv amount s) = Inl ValueError \<and>
      (\<forall>m' k. counter_value m' k (snd (Counter_inc m lv amount s)) = counter_value m' k s)"
    using Counter_inc_negative [of amount lv m s] by blast
  have pos: "0 \<le> amount \<longrightarrow> counters_nondecreasing s (snd (Counter_inc m lv amount s))"
    by (simp add: nondecreasing_Counter_inc)
  have render: "counters_nondecreasing s (snd (get_metrics fmt s))"
    "counters_nondecreasing s (snd (get_metrics_user fmt s))"
    by (simp_all add: get_metrics_def get_metrics_user_def nondecreasing_refl)
  have zero: "counter_value m k fresh = 0"
    by (simp add: counter_value_fresh)
  show ?thesis
    by (intro conjI zero start neg pos product_recorders user_recorders wrappers_nondecreasing
          middleware_nondecreasing render)
qed

theorem counters_start_at_zero_and_never_decrease_witness:
  "counter_value http_requests_total [''GET'', ''get_product'', ''200''] fresh = 0 \<and>
   child 0 (labels [''web''] 0 []) [''web''] = (0::real) \<and>
   fst (Counter_inc http_requests_total [''GET'', ''get_product'', ''200''] (- 1) fresh) =
     Inl ValueError \<and>
   counter_value http_requests_total [''GET'', ''get_product'', ''200'']
     (snd (Counter_inc http_requests_total [''GET'', ''get_product'', ''200''] (- 1) fresh)) = 0 \<and>
   counter_value http_requests_total [''GET'', ''get_product'', ''200''] fresh \<le>
     counter_value http_requests_total [''GET'', ''get_product'', ''200'']
       (snd (Counter_inc http_requests_total [''GET'', ''get_product'', ''200''] 2 fresh)) \<and>
   fst (track_login_attempt False ''email'' fresh) = Inr () \<and>
   counter_value user_login_attempts_total [''failed'', ''email''] fresh \<le>
     counter_value user_login_attempts_total [''failed'', ''email'']
       (snd (track_login_attempt False ''email'' fresh))"
proof -
  note T = counters_start_at_zero_and_never_decrease
  have zero: "counter_value http_requests_total [''GET'', ''get_product'', ''200''] fresh = 0"
    by (rule T [THEN conjunct1])
  have start: "child 0 (labels [''web''] 0 []) [''web''] = (0::real)"
    using T [where c = "[]" and lv = "[''web'']",
            THEN conjunct2, THEN conjunct1]
    by simp
  have neg: "fst (Counter_inc http_requests_total [''GET'', ''get_product'', ''200''] (- 1) fresh) =
       Inl ValueError \<and>
     counter_value http_requests_total [''GET'', ''get_product'', ''200'']
       (snd (Counter_inc http_requests_total [''GET'', ''get_product'', ''200''] (- 1) fresh)) = 0"
    using T [where amount = "- 1"
            and lv = "[''GET'', ''get_product'', ''200'']" and m = http_requests_total
            and s = fresh,
            THEN conjunct2, THEN conjunct2, THEN conjunct1]
    by (simp add: labelnames_length zero)
  have pos: "counters_nondecreasing fresh
       (snd (Counter_inc http_requests_total [''GET'', ''get_product'', ''200''] 2 fresh))"
    using T [where amount = 2 and lv = "[''GET'', ''get_product'', ''200'']"
            and m = http_requests_total and s = fresh,
            THEN conjunct2, THEN conjunct2, THEN conjunct2, THEN conjunct1]
    by simp
  have login: "fst (track_login_attempt False ''email'' fresh) = Inr () \<and>
      counters_nondecreasing fresh (snd (track_login_attempt False ''email'' fresh))"
    using T [where s = fresh and success = False and login_method = "''email''"
            and source = "[]" and ip_address = "[]" and count = 0 and status = "[]"
            and field = "[]" and action = "[]" and token_type = "[]" and reason = "[]"
            and activity_type = "[]" and endpoint = "[]" and user_id = "[]",
            THEN conjunct2, THEN conjunct2, THEN conjunct2, THEN conjunct2, THEN conjunct2,
            THEN conjunct1]
    by simp
  have below: "counters_nondecreasing s s' \<Longrightarrow> counter_value m k s \<le> counter_value m k s'"
    for s s' m k
    by (simp add: counters_nondecreasing_def counter_value_def)
  show ?thesis
    using zero start neg login
      below [of fresh _ http_requests_total "[''GET'', ''get_product'', ''200'']", OF pos]
      below [of fresh _ user_login_attempts_total "[''failed'', ''email'']",
        OF login [THEN conjunct2]]
    by simp
qed

section \<open>The exposition endpoint is read-only\<close>


end
